theory Spec2Isabelle
  imports Complex_Main "HOL-Library.Multiset" "HOL-Library.Char_ord" "HOL-Library.List_Lexorder"
begin

section \<open>MetaXcan: the alignment contexts of \<open>metax/metaxcan/Utilities.py\<close>\<close>

subsection \<open>Values\<close>

text \<open>
  A numpy \<open>float64\<close>. The module never does arithmetic on weights, z-scores and betas of
  the GWAS; it only moves them and asks \<open>numpy.isfinite\<close>.
\<close>

datatype float64 = Finite real | PInf | NInf | NaN

fun isfinite :: "float64 \<Rightarrow> bool" where
  "isfinite (Finite r) = True"
| "isfinite PInf = False"
| "isfinite NInf = False"
| "isfinite NaN = False"

text \<open>The exceptions of Python that the module can raise.\<close>

datatype py_error = KeyError string | TypeError | ValueError

subsection \<open>Python dictionaries\<close>

text \<open>
  A \<open>dict\<close> is an association list with pairwise different keys. \<open>d[k] = v\<close> is
  \<open>dict_set\<close>, \<open>d[k]\<close> is \<open>dict_get\<close> (a missing key raises \<open>KeyError\<close>), and the
  comprehension \<open>{key(x): val(x) for x in xs}\<close> is \<open>dict_of\<close>: a later element
  overwrites an earlier one with the same key.
\<close>

type_synonym ('k, 'v) dict = "('k \<times> 'v) list"

fun dict_set :: "'k \<Rightarrow> 'v \<Rightarrow> ('k, 'v) dict \<Rightarrow> ('k, 'v) dict" where
  "dict_set k v [] = [(k, v)]"
| "dict_set k v ((a, b) # d) = (if a = k then (k, v) # d else (a, b) # dict_set k v d)"

definition dict_of :: "('a \<Rightarrow> 'k) \<Rightarrow> ('a \<Rightarrow> 'v) \<Rightarrow> 'a list \<Rightarrow> ('k, 'v) dict" where
  "dict_of key val xs = fold (\<lambda>x d. dict_set (key x) (val x) d) xs []"

definition dict_get :: "(string, 'v) dict \<Rightarrow> string \<Rightarrow> py_error + 'v" where
  "dict_get d k = (case map_of d k of None \<Rightarrow> Inl (KeyError k) | Some v \<Rightarrow> Inr v)"

definition dict_keys :: "('k, 'v) dict \<Rightarrow> 'k list" where
  "dict_keys d = map fst d"

definition dict_has :: "('k, 'v) dict \<Rightarrow> 'k \<Rightarrow> bool" where
  "dict_has d k = (map_of d k \<noteq> None)"

text \<open>
  The list comprehension \<open>[f(x) for x in xs]\<close> with a body that may raise: the first
  exception ends the comprehension.
\<close>

fun comprehend :: "('a \<Rightarrow> py_error + 'b) \<Rightarrow> 'a list \<Rightarrow> py_error + 'b list" where
  "comprehend f [] = Inr []"
| "comprehend f (x # xs) =
     (case f x of
        Inl e \<Rightarrow> Inl e
      | Inr y \<Rightarrow> (case comprehend f xs of Inl e \<Rightarrow> Inl e | Inr ys \<Rightarrow> Inr (y # ys)))"

subsection \<open>The loaded inputs\<close>

text \<open>
  A row of \<open>model.weights\<close>. The module reads the columns \<open>rsid\<close>, \<open>gene\<close> and
  \<open>weight\<close> (by name in \<open>SimpleContext\<close>, by the positions \<open>WDBQF.RSID\<close>,
  \<open>WDBQF.GENE\<close>, \<open>WDBQF.WEIGHT\<close> in \<open>OptimizedContext\<close>); the allele columns are
  never read here.
\<close>

record weight_row =
  rsid :: string
  gene :: string
  weight :: float64

text \<open>
  A row of the GWAS table after \<open>_sanitized_gwas\<close>, which selects exactly the columns
  \<open>snp\<close>, \<open>zscore\<close>, \<open>beta\<close> in this order (positions 0, 1, 2 of \<open>gwas.values\<close>).
  Both builders, \<open>_build_context\<close> and \<open>_build_simple_context\<close>, hand such a table to
  the context, so the column \<open>beta\<close> is always there and line 47 of
  \<open>SimpleContext.provide_calculation\<close> never adds it.
\<close>

record gwas_row =
  snp :: string
  zscore :: float64
  beta :: float64

text \<open>A row of \<open>model.extra\<close>, the per-gene metadata.\<close>

datatype cell = Str string | Flt float64 | IntV int

record model_info_row =
  mi_gene :: string
  mi_gene_name :: cell
  mi_pred_perf_r2 :: cell
  mi_pred_perf_pval :: cell
  mi_pred_perf_qval :: cell
  mi_n_snps_in_model :: cell

record model =
  weights :: "weight_row list"
  extra :: "model_info_row list"

text \<open>
  Modelled from the spec: the covariance source (\<open>MatrixManager\<close>, not part of this
  module). \<open>get(gene, candidate_snps, strict=False)\<close> is keyed by the gene and the
  candidate SNP set and answers with the served SNP order (or the absent sentinel
  \<open>None\<close>) and a matrix; \<open>n_snps(gene)\<close> counts the SNPs the source has for the gene.
\<close>

record 'm covariance_source =
  cov_get :: "string \<Rightarrow> string set \<Rightarrow> string list option \<times> 'm"
  cov_n_snps :: "string \<Rightarrow> nat"

text \<open>A row of the aligned table, under the schema \<open>snp, weight, zscore, beta\<close>.\<close>

record aligned_row =
  a_snp :: string
  a_weight :: float64
  a_zscore :: float64
  a_beta :: float64

type_synonym 'm calculation = "nat \<times> aligned_row list \<times> 'm \<times> string list option"

subsection \<open>SimpleContext\<close>

record 'm simple_context =
  sc_gwas :: "gwas_row list"
  sc_model :: model
  sc_covariance :: "'m covariance_source"

definition SimpleContext :: "gwas_row list \<Rightarrow> model \<Rightarrow> 'm covariance_source \<Rightarrow> 'm simple_context" where
  "SimpleContext gwas mdl covariance =
     \<lparr>sc_gwas = gwas, sc_model = mdl, sc_covariance = covariance\<rparr>"

definition get_weights :: "'m simple_context \<Rightarrow> string \<Rightarrow> weight_row list" where
  "get_weights self g = filter (\<lambda>w. gene w = g) (weights (sc_model self))"

definition get_covariance :: "'m covariance_source \<Rightarrow> string \<Rightarrow> string set \<Rightarrow> string list option \<times> 'm" where
  "get_covariance covariance g snps = cov_get covariance g snps"

definition get_gwas :: "'m simple_context \<Rightarrow> string list \<Rightarrow> gwas_row list" where
  "get_gwas self snps = filter (\<lambda>r. snp r \<in> set snps) (sc_gwas self)"

definition get_model_snps :: "'m simple_context \<Rightarrow> string set" where
  "get_model_snps self = set (map rsid (weights (sc_model self)))"

definition get_n_in_covariance :: "'m simple_context \<Rightarrow> string \<Rightarrow> nat" where
  "get_n_in_covariance self g = cov_n_snps (sc_covariance self) g"

definition get_model_info :: "'m simple_context \<Rightarrow> model_info_row list" where
  "get_model_info self = extra (sc_model self)"

text \<open>\<open>drop_duplicates\<close> of pandas keeps the first occurrence of every value.\<close>

fun drop_duplicates :: "'a list \<Rightarrow> 'a list" where
  "drop_duplicates [] = []"
| "drop_duplicates (x # xs) = x # filter (\<lambda>y. y \<noteq> x) (drop_duplicates xs)"

text \<open>
  \<open>pandas.merge(w, gwas, left_on="rsid", right_on="snp")\<close>, the inner join: every pair
  of a left and a right row with the same key. The joined rows come grouped by key, the
  keys in the order of their first left row; within one key the left rows go in their
  order and, for one left row, the right rows in theirs.
\<close>

definition key_group :: "('a \<Rightarrow> string) \<Rightarrow> ('b \<Rightarrow> string) \<Rightarrow> 'a list \<Rightarrow> 'b list \<Rightarrow> string \<Rightarrow> ('a \<times> 'b) list" where
  "key_group lkey rkey ls rs k =
     concat (map (\<lambda>l. map (\<lambda>r. (l, r)) (filter (\<lambda>r. rkey r = k) rs))
                 (filter (\<lambda>l. lkey l = k) ls))"

definition merge_on :: "('a \<Rightarrow> string) \<Rightarrow> ('b \<Rightarrow> string) \<Rightarrow> 'a list \<Rightarrow> 'b list \<Rightarrow> ('a \<times> 'b) list" where
  "merge_on lkey rkey ls rs =
     concat (map (key_group lkey rkey ls rs) (drop_duplicates (map lkey ls)))"

definition joined_row :: "weight_row \<times> gwas_row \<Rightarrow> aligned_row" where
  "joined_row p =
     \<lparr>a_snp = snp (snd p), a_weight = weight (fst p),
      a_zscore = zscore (snd p), a_beta = beta (snd p)\<rparr>"

text \<open>
  Lines 43 to 48 of \<open>provide_calculation\<close>: the weights of the gene joined with their GWAS
  rows, under the columns \<open>snp, weight, zscore, beta\<close>.
\<close>

definition join_table :: "'m simple_context \<Rightarrow> string \<Rightarrow> aligned_row list" where
  "join_table self g =
     (let w = get_weights self g;
          gwas = get_gwas self (map rsid w)
      in map joined_row (merge_on rsid snp w gwas))"

definition provide_calculation :: "'m simple_context \<Rightarrow> string \<Rightarrow> py_error + 'm calculation" where
  "provide_calculation self g =
     (let w = get_weights self g;
          i = join_table self g;
          (snps, cov) = get_covariance (sc_covariance self) g (set (map a_snp i))
      in case snps of
           None \<Rightarrow> Inr (length w, [], cov, snps)
         | Some s \<Rightarrow>
             if s \<noteq> [] then
               (let d = dict_of a_snp (\<lambda>x. x) i
                in case comprehend (dict_get d) s of
                     Inl e \<Rightarrow> Inl e
                   | Inr rows \<Rightarrow> Inr (length w, rows, cov, snps))
             else Inr (length w, [], cov, snps))"

subsection \<open>OptimizedContext\<close>

text \<open>
  \<open>_prepare_weight_data\<close>: the rows grouped by gene in the order of the source, and the
  set of all SNP ids. \<open>_prepare_gwas_data\<close>: the GWAS rows by SNP id, the last row of a
  SNP winning.
\<close>

definition add_weight_row ::
  "weight_row \<Rightarrow> (string, weight_row list) dict \<times> string set \<Rightarrow> (string, weight_row list) dict \<times> string set" where
  "add_weight_row x acc =
     (case acc of (d, snps) \<Rightarrow>
        (let d' = (if \<not> dict_has d (gene x) then dict_set (gene x) [] d else d);
             entries = (case map_of d' (gene x) of None \<Rightarrow> [] | Some e \<Rightarrow> e)
         in (dict_set (gene x) (entries @ [x]) d', insert (rsid x) snps)))"

definition prepare_weight_data :: "model \<Rightarrow> (string, weight_row list) dict \<times> string set" where
  "prepare_weight_data mdl = fold add_weight_row (weights mdl) ([], {})"

definition prepare_gwas_data :: "gwas_row list \<Rightarrow> (string, gwas_row) dict" where
  "prepare_gwas_data gwas = dict_of snp (\<lambda>x. x) gwas"

record 'm optimized_context =
  oc_covariance :: "'m covariance_source"
  oc_weight_data :: "(string, weight_row list) dict"
  oc_snps_in_model :: "string set"
  oc_gwas_data :: "(string, gwas_row) dict"
  oc_extra :: "model_info_row list"

definition OptimizedContext :: "gwas_row list \<Rightarrow> model \<Rightarrow> 'm covariance_source \<Rightarrow> 'm optimized_context" where
  "OptimizedContext gwas mdl covariance =
     \<lparr>oc_covariance = covariance,
      oc_weight_data = fst (prepare_weight_data mdl),
      oc_snps_in_model = snd (prepare_weight_data mdl),
      oc_gwas_data = prepare_gwas_data gwas,
      oc_extra = extra mdl\<rparr>"

text \<open>\<open>_get_weights\<close>: the dictionary from SNP id to weight of one gene.\<close>

definition opt_get_weights_dict :: "'m optimized_context \<Rightarrow> string \<Rightarrow> py_error + (string, float64) dict" where
  "opt_get_weights_dict self g =
     (case dict_get (oc_weight_data self) g of
        Inl e \<Rightarrow> Inl e
      | Inr w \<Rightarrow> Inr (dict_of rsid weight w))"

text \<open>
  \<open>get_weights\<close> of the optimized context: the rows of the gene as a table
  (\<open>dataframe_from_weight_data\<close> only changes the container).
\<close>

definition opt_get_weights :: "'m optimized_context \<Rightarrow> string \<Rightarrow> py_error + weight_row list" where
  "opt_get_weights self g = dict_get (oc_weight_data self) g"

definition opt_get_model_info :: "'m optimized_context \<Rightarrow> model_info_row list" where
  "opt_get_model_info self = oc_extra self"

definition opt_get_model_snps :: "'m optimized_context \<Rightarrow> string set" where
  "opt_get_model_snps self = oc_snps_in_model self"

text \<open>
  \<open>_get_gwas\<close>: the requested SNPs that the GWAS knows, each with its z-score and beta.
  The argument is made a set first, so each SNP is visited once.
\<close>

definition opt_get_gwas_dict :: "'m optimized_context \<Rightarrow> string list \<Rightarrow> (string, float64 \<times> float64) dict" where
  "opt_get_gwas_dict self snps =
     (let g = oc_gwas_data self;
          rows = concat (map (\<lambda>x. case map_of g x of None \<Rightarrow> [] | Some r \<Rightarrow> [r]) (remdups snps))
      in dict_of snp (\<lambda>x. (zscore x, beta x)) rows)"

definition opt_provide_calculation :: "'m optimized_context \<Rightarrow> string \<Rightarrow> py_error + 'm calculation" where
  "opt_provide_calculation self g =
     (case opt_get_weights_dict self g of
        Inl e \<Rightarrow> Inl e
      | Inr w \<Rightarrow>
          (let gwas = opt_get_gwas_dict self (dict_keys w);
               d = filter (\<lambda>(x, v). dict_has gwas x) w;
               (snps, cov) = get_covariance (oc_covariance self) g (set (dict_keys d))
           in case snps of
                None \<Rightarrow> Inr (length w, [], cov, snps)
              | Some s \<Rightarrow>
                  (case comprehend
                          (\<lambda>x. case dict_get w x of
                                 Inl e \<Rightarrow> Inl e
                               | Inr wt \<Rightarrow>
                                   (case dict_get gwas x of
                                      Inl e \<Rightarrow> Inl e
                                    | Inr zb \<Rightarrow>
                                        Inr \<lparr>a_snp = x, a_weight = wt,
                                             a_zscore = fst zb, a_beta = snd zb\<rparr>)) s of
                     Inl e \<Rightarrow> Inl e
                   | Inr rows \<Rightarrow> Inr (length w, rows, cov, snps))))"

subsection \<open>The data intersection\<close>

text \<open>
  \<open>_data_intersection\<close>: the genes and the SNP ids of the inner join of weights and
  GWAS, each without duplicates.
\<close>

definition data_intersection :: "model \<Rightarrow> gwas_row list \<Rightarrow> string list \<times> string list" where
  "data_intersection mdl gwas =
     (let k = merge_on rsid snp (weights mdl) gwas
      in (drop_duplicates (map (\<lambda>p. gene (fst p)) k), drop_duplicates (map (\<lambda>p. rsid (fst p)) k)))"

text \<open>\<open>_data_intersection_2\<close>: the same by membership in the GWAS dictionary.\<close>

definition intersect_gene ::
  "(string, gwas_row) dict \<Rightarrow> string \<times> weight_row list \<Rightarrow> string set \<times> string set \<Rightarrow> string set \<times> string set" where
  "intersect_gene gwas_data item acc =
     fold (\<lambda>s (genes, snps).
             if dict_has gwas_data s then (insert (fst item) genes, insert s snps)
             else (genes, snps))
          (map rsid (snd item)) acc"

definition data_intersection_2 ::
  "(string, weight_row list) dict \<Rightarrow> (string, gwas_row) dict \<Rightarrow> string set \<times> string set" where
  "data_intersection_2 weight_data gwas_data = fold (intersect_gene gwas_data) weight_data ({}, {})"

definition get_data_intersection :: "'m simple_context \<Rightarrow> string list \<times> string list" where
  "get_data_intersection self = data_intersection (sc_model self) (sc_gwas self)"

definition opt_get_data_intersection :: "'m optimized_context \<Rightarrow> string set \<times> string set" where
  "opt_get_data_intersection self = data_intersection_2 (oc_weight_data self) (oc_gwas_data self)"

subsection \<open>GWAS preparation\<close>

text \<open>
  A cell of the raw z-score column: a string such as \<open>"NA"\<close> (an \<open>object\<close> column), or a
  float. A raw row has the SNP id, the z-score, the beta when the table has that column
  (\<open>'b\<close> is \<open>unit\<close> when it has not) and the other columns \<open>'x\<close>.
\<close>

datatype zcell = ZStr string | ZFloat float64

record ('b, 'x) raw_row =
  r_snp :: string
  r_zscore :: zcell
  r_beta :: 'b
  r_other :: 'x

datatype 'x gwas_frame =
    WithoutBeta "(unit, 'x) raw_row list"
  | WithBeta "(float64, 'x) raw_row list"

datatype log_entry = Info string | Warning string

text \<open>
  \<open>gwas.zscore.astype(numpy.float64)\<close>: a float stays, a string is parsed, and a string
  that is no number raises \<open>ValueError\<close>. The parser of numpy is a parameter.
\<close>

definition astype_float64 :: "(string \<Rightarrow> float64 option) \<Rightarrow> zcell \<Rightarrow> py_error + float64" where
  "astype_float64 float_of_string c =
     (case c of
        ZFloat f \<Rightarrow> Inr f
      | ZStr s \<Rightarrow> (case float_of_string s of None \<Rightarrow> Inl ValueError | Some f \<Rightarrow> Inr f))"

definition cast_row ::
  "(string \<Rightarrow> float64 option) \<Rightarrow> ('b, 'x) raw_row \<Rightarrow> py_error + ('b, 'x) raw_row" where
  "cast_row float_of_string r =
     (case astype_float64 float_of_string (r_zscore r) of
        Inl e \<Rightarrow> Inl e
      | Inr f \<Rightarrow> Inr (r\<lparr>r_zscore := ZFloat f\<rparr>))"

text \<open>
  The \<open>try\<close> block of \<open>_prepare_gwas\<close>. The rows with the z-score \<open>"NA"\<close> go first
  (\<open>gwas = gwas.loc[i]\<close>), then the column is cast. When the cast raises, the handler
  logs and goes on with \<open>gwas\<close> as it is by then: filtered, not cast. (A float never
  equals the string \<open>"NA"\<close>; a pandas that refuses to compare a float column with a string
  raises before the filter, and leaves the same rows, since such a column has no \<open>"NA"\<close>
  and needs no cast.)
\<close>

definition prepare_try ::
  "(string \<Rightarrow> float64 option) \<Rightarrow> ('b, 'x) raw_row list \<Rightarrow> ('b, 'x) raw_row list \<times> log_entry list" where
  "prepare_try float_of_string gwas =
     (let gwas = filter (\<lambda>r. r_zscore r \<noteq> ZStr ''NA'') gwas
      in case comprehend (cast_row float_of_string) gwas of
           Inr casted \<Rightarrow> (casted, [])
         | Inl e \<Rightarrow> (gwas, [Info ''Unexpected issue preparing gwas...'']))"

definition with_nan_beta :: "(unit, 'x) raw_row \<Rightarrow> (float64, 'x) raw_row" where
  "with_nan_beta r =
     \<lparr>r_snp = r_snp r, r_zscore = r_zscore r, r_beta = NaN, r_other = r_other r\<rparr>"

text \<open>
  \<open>_prepare_gwas\<close>. The \<open>try\<close> block catches every exception. Line 171, which adds the
  column \<open>beta\<close> to a table that has none, stands outside of it: setting a column of a
  table without rows from the scalar \<open>numpy.nan\<close> raises \<open>ValueError\<close> in pandas.
\<close>

definition prepare_gwas ::
  "(string \<Rightarrow> float64 option) \<Rightarrow> 'x gwas_frame \<Rightarrow> py_error + 'x gwas_frame \<times> log_entry list" where
  "prepare_gwas float_of_string gwas =
     (case gwas of
        WithBeta rows \<Rightarrow>
          (let (rows', msgs) = prepare_try float_of_string rows in Inr (WithBeta rows', msgs))
      | WithoutBeta rows \<Rightarrow>
          (let (rows', msgs) = prepare_try float_of_string rows
           in if rows' = [] then Inl ValueError
              else Inr (WithBeta (map with_nan_beta rows'), msgs)))"

text \<open>
  \<open>_sanitized_gwas\<close>. Selecting the column \<open>beta\<close> of a table without it raises
  \<open>KeyError\<close>, and \<open>numpy.isfinite\<close> raises \<open>TypeError\<close> on an \<open>object\<close> column, which is
  a z-score column that still holds a string.
\<close>

definition select_columns :: "(float64, 'x) raw_row \<Rightarrow> py_error + gwas_row" where
  "select_columns r =
     (case r_zscore r of
        ZStr s \<Rightarrow> Inl TypeError
      | ZFloat z \<Rightarrow> Inr \<lparr>snp = r_snp r, zscore = z, beta = r_beta r\<rparr>)"

definition sanitized_gwas :: "'x gwas_frame \<Rightarrow> py_error + gwas_row list \<times> log_entry list" where
  "sanitized_gwas gwas =
     (case gwas of
        WithoutBeta rows \<Rightarrow> Inl (KeyError ''beta'')
      | WithBeta rows \<Rightarrow>
          (case comprehend select_columns rows of
             Inl e \<Rightarrow> Inl e
           | Inr g \<Rightarrow>
               if \<exists>r\<in>set g. \<not> isfinite (zscore r)
               then Inr (filter (\<lambda>r. isfinite (zscore r)) g,
                         [Warning ''Discarding non finite GWAS zscores''])
               else Inr (g, [])))"

text \<open>
  \<open>_build_context\<close> and \<open>_build_simple_context\<close>: the GWAS is prepared and sanitized,
  then handed to the context. (\<open>_prepare_model\<close> makes the gene column categorical, which
  changes no value.) An exception of either step ends the construction.
\<close>

definition build_context ::
  "(string \<Rightarrow> float64 option) \<Rightarrow> model \<Rightarrow> 'm covariance_source \<Rightarrow> 'x gwas_frame
     \<Rightarrow> py_error + 'm optimized_context \<times> log_entry list" where
  "build_context float_of_string mdl covariance_manager gwas =
     (case prepare_gwas float_of_string gwas of
        Inl e \<Rightarrow> Inl e
      | Inr (prepared, msgs) \<Rightarrow>
          (case sanitized_gwas prepared of
             Inl e \<Rightarrow> Inl e
           | Inr (sanitized, msgs') \<Rightarrow>
               Inr (OptimizedContext sanitized mdl covariance_manager, msgs @ msgs')))"

definition build_simple_context ::
  "(string \<Rightarrow> float64 option) \<Rightarrow> model \<Rightarrow> 'm covariance_source \<Rightarrow> 'x gwas_frame
     \<Rightarrow> py_error + 'm simple_context \<times> log_entry list" where
  "build_simple_context float_of_string mdl covariance_manager gwas =
     (case prepare_gwas float_of_string gwas of
        Inl e \<Rightarrow> Inl e
      | Inr (prepared, msgs) \<Rightarrow>
          (case sanitized_gwas prepared of
             Inl e \<Rightarrow> Inl e
           | Inr (sanitized, msgs') \<Rightarrow>
               Inr (SimpleContext sanitized mdl covariance_manager, msgs @ msgs')))"

subsection \<open>The output table\<close>

text \<open>
  Modelled from the spec: the columns of the result table (\<open>AssociationCalculation.ARF\<close>
  is not part of this module): one row per gene with the gene id, the z-score, the effect
  size, the variance of the predicted expression, the counts of SNPs used and found in the
  covariance, and the raw \<open>n_snps_in_model\<close> that \<open>format_output\<close> drops.
\<close>

record result_row =
  res_gene :: string
  res_zscore :: float64
  res_effect_size :: cell
  res_var_g :: cell
  res_n_snps_used :: cell
  res_n_snps_in_cov :: cell
  res_n_snps_in_model :: cell

record out_row =
  o_gene :: string
  o_gene_name :: cell
  o_zscore :: cell
  o_effect_size :: cell
  o_pvalue :: cell
  o_var_g :: cell
  o_pred_perf_r2 :: cell
  o_pred_perf_pval :: cell
  o_pred_perf_qval :: cell
  o_n_snps_used :: cell
  o_n_snps_in_cov :: cell
  o_n_snps_in_model :: cell

text \<open>
  \<open>2 * stats.norm.sf(numpy.abs(z))\<close> on the rows with a finite z-score, \<open>numpy.nan\<close> on
  the others. The survival function of scipy is a parameter; taking the absolute value
  and doubling are exact on floats.
\<close>

fun f64_abs :: "float64 \<Rightarrow> float64" where
  "f64_abs (Finite r) = Finite \<bar>r\<bar>"
| "f64_abs PInf = PInf"
| "f64_abs NInf = PInf"
| "f64_abs NaN = NaN"

fun f64_double :: "float64 \<Rightarrow> float64" where
  "f64_double (Finite r) = Finite (2 * r)"
| "f64_double x = x"

definition pvalue_of :: "(float64 \<Rightarrow> float64) \<Rightarrow> float64 \<Rightarrow> float64" where
  "pvalue_of norm_sf z = (if isfinite z then f64_double (norm_sf (f64_abs z)) else NaN)"

text \<open>\<open>fillna("NA")\<close> on one cell, and \<open>_to_int\<close> with its bare \<open>except\<close>.\<close>

fun fillna :: "cell \<Rightarrow> cell" where
  "fillna (Flt NaN) = Str ''NA''"
| "fillna c = c"

fun to_int :: "(string \<Rightarrow> int option) \<Rightarrow> cell \<Rightarrow> cell" where
  "to_int int_of_string (Flt (Finite r)) = IntV (if 0 \<le> r then \<lfloor>r\<rfloor> else \<lceil>r\<rceil>)"
| "to_int int_of_string (Flt x) = Flt x"
| "to_int int_of_string (IntV i) = IntV i"
| "to_int int_of_string (Str s) = (case int_of_string s of None \<Rightarrow> Str s | Some i \<Rightarrow> IntV i)"

text \<open>
  The order of Python 2 on the cells of a column, which \<open>sort_values\<close> uses on an
  \<open>object\<close> column: numbers by value, strings by their characters, and every number before
  every string.
\<close>

fun f64_le :: "float64 \<Rightarrow> float64 \<Rightarrow> bool" where
  "f64_le NaN y = False"
| "f64_le x NaN = False"
| "f64_le NInf y = True"
| "f64_le x PInf = True"
| "f64_le (Finite a) (Finite b) = (a \<le> b)"
| "f64_le x y = False"

fun number_of :: "cell \<Rightarrow> float64 option" where
  "number_of (Flt f) = Some f"
| "number_of (IntV i) = Some (Finite (of_int i))"
| "number_of (Str s) = None"

fun py_le :: "cell \<Rightarrow> cell \<Rightarrow> bool" where
  "py_le (Str a) (Str b) = (a \<le> b)"
| "py_le (Str a) y = False"
| "py_le x (Str b) = True"
| "py_le x y = (case (number_of x, number_of y) of (Some a, Some b) \<Rightarrow> f64_le a b | _ \<Rightarrow> False)"

text \<open>
  \<open>sort_values(by=pvalue)\<close> as an insertion sort in that order. Where two rows have the
  same p-value pandas leaves their order open; the sort here keeps it.
\<close>

fun insort_pvalue :: "out_row \<Rightarrow> out_row list \<Rightarrow> out_row list" where
  "insort_pvalue x [] = [x]"
| "insort_pvalue x (y # ys) =
     (if py_le (o_pvalue x) (o_pvalue y) then x # y # ys else y # insort_pvalue x ys)"

definition sort_values_pvalue :: "out_row list \<Rightarrow> out_row list" where
  "sort_values_pvalue rows = foldr insort_pvalue rows []"

definition split_first :: "string \<Rightarrow> string" where
  "split_first s = takeWhile (\<lambda>c. c \<noteq> CHR ''.'') s"

definition output_row ::
  "(float64 \<Rightarrow> float64) \<Rightarrow> (string \<Rightarrow> int option) \<Rightarrow> bool \<Rightarrow> result_row \<times> model_info_row \<Rightarrow> out_row" where
  "output_row norm_sf int_of_string remove_ens_version p =
     (case p of (r, m) \<Rightarrow>
        \<lparr>o_gene = (if remove_ens_version then split_first (res_gene r) else res_gene r),
         o_gene_name = fillna (mi_gene_name m),
         o_zscore = fillna (Flt (res_zscore r)),
         o_effect_size = fillna (res_effect_size r),
         o_pvalue = fillna (Flt (pvalue_of norm_sf (res_zscore r))),
         o_var_g = fillna (res_var_g r),
         o_pred_perf_r2 = fillna (mi_pred_perf_r2 m),
         o_pred_perf_pval = fillna (mi_pred_perf_pval m),
         o_pred_perf_qval = fillna (mi_pred_perf_qval m),
         o_n_snps_used = fillna (res_n_snps_used r),
         o_n_snps_in_cov = to_int int_of_string (fillna (res_n_snps_in_cov r)),
         o_n_snps_in_model = fillna (mi_n_snps_in_model m)\<rparr>)"

definition format_output ::
  "(float64 \<Rightarrow> float64) \<Rightarrow> (string \<Rightarrow> int option) \<Rightarrow> result_row list \<Rightarrow> model_info_row list \<Rightarrow> bool \<Rightarrow> out_row list" where
  "format_output norm_sf int_of_string results model_info remove_ens_version =
     (let merged = merge_on res_gene mi_gene results model_info
      in sort_values_pvalue (map (output_row norm_sf int_of_string remove_ens_version) merged))"

subsection \<open>Auxiliary notions of the proofs\<close>

text \<open>The last element of a list that satisfies a predicate.\<close>

definition last_with :: "('a \<Rightarrow> bool) \<Rightarrow> 'a list \<Rightarrow> 'a option" where
  "last_with P xs = find P (rev xs)"

text \<open>
  The aligned row of a SNP: the weight of its last weight row and the z-score and beta of
  its last GWAS row; none when the SNP misses in either table.
\<close>

definition aligned_at :: "weight_row list \<Rightarrow> gwas_row list \<Rightarrow> string \<Rightarrow> aligned_row option" where
  "aligned_at w gwas x =
     (case last_with (\<lambda>l. rsid l = x) w of
        None \<Rightarrow> None
      | Some l \<Rightarrow> map_option (\<lambda>r. joined_row (l, r)) (last_with (\<lambda>r. snp r = x) gwas))"

definition aligned_get :: "weight_row list \<Rightarrow> gwas_row list \<Rightarrow> string \<Rightarrow> py_error + aligned_row" where
  "aligned_get w gwas x =
     (case aligned_at w gwas x of None \<Rightarrow> Inl (KeyError x) | Some a \<Rightarrow> Inr a)"

text \<open>
  A raw table read row by row, whatever its shape: the SNP id, the z-score cell, the beta
  when the table has the column, and the other columns.
\<close>

definition frame_rows :: "'x gwas_frame \<Rightarrow> (string \<times> zcell \<times> float64 option \<times> 'x) list" where
  "frame_rows gwas =
     (case gwas of
        WithoutBeta rows \<Rightarrow> map (\<lambda>r. (r_snp r, r_zscore r, None, r_other r)) rows
      | WithBeta rows \<Rightarrow> map (\<lambda>r. (r_snp r, r_zscore r, Some (r_beta r), r_other r)) rows)"

definition beta_or_nan :: "float64 option \<Rightarrow> float64" where
  "beta_or_nan b = (case b of None \<Rightarrow> NaN | Some x \<Rightarrow> x)"

definition castable :: "(string \<Rightarrow> float64 option) \<Rightarrow> zcell \<Rightarrow> bool" where
  "castable float_of_string c = (case astype_float64 float_of_string c of Inl e \<Rightarrow> False | Inr f \<Rightarrow> True)"

definition finite_zscore :: "zcell \<Rightarrow> bool" where
  "finite_zscore c = (case c of ZStr s \<Rightarrow> False | ZFloat z \<Rightarrow> isfinite z)"

subsection \<open>A small data set\<close>

text \<open>
  Gene \<open>G1\<close> has the weights of three SNPs, the GWAS knows two of them, and the covariance
  source serves \<open>s2\<close> before \<open>s1\<close>. Gene \<open>G2\<close> has weights and no covariance. Gene
  \<open>G3\<close> has two weight rows for the same SNP. Gene \<open>G4\<close> has a covariance entry that
  serves \<open>s3\<close>, asked or not. Gene \<open>G5\<close> has a covariance entry and no weights. Gene
  \<open>G9\<close> is in no table.
\<close>

definition example_model :: model where
  "example_model =
     \<lparr>weights =
        [\<lparr>rsid = ''s1'', gene = ''G1'', weight = Finite (1/2)\<rparr>,
         \<lparr>rsid = ''s2'', gene = ''G1'', weight = Finite (-3/10)\<rparr>,
         \<lparr>rsid = ''s3'', gene = ''G1'', weight = Finite (1/10)\<rparr>,
         \<lparr>rsid = ''s1'', gene = ''G2'', weight = Finite 1\<rparr>,
         \<lparr>rsid = ''s1'', gene = ''G3'', weight = Finite (1/4)\<rparr>,
         \<lparr>rsid = ''s1'', gene = ''G3'', weight = Finite (3/4)\<rparr>,
         \<lparr>rsid = ''s1'', gene = ''G4'', weight = Finite 2\<rparr>],
      extra =
        [\<lparr>mi_gene = ''G1'', mi_gene_name = Str ''ONE'', mi_pred_perf_r2 = Flt (Finite (1/2)),
          mi_pred_perf_pval = Flt (Finite (1/100)), mi_pred_perf_qval = Flt NaN,
          mi_n_snps_in_model = IntV 3\<rparr>,
         \<lparr>mi_gene = ''G2'', mi_gene_name = Str ''TWO'', mi_pred_perf_r2 = Flt (Finite (1/4)),
          mi_pred_perf_pval = Flt (Finite (1/50)), mi_pred_perf_qval = Flt NaN,
          mi_n_snps_in_model = IntV 1\<rparr>]\<rparr>"

definition example_gwas :: "gwas_row list" where
  "example_gwas =
     [\<lparr>snp = ''s1'', zscore = Finite 2, beta = Finite (1/100)\<rparr>,
      \<lparr>snp = ''s2'', zscore = Finite (-1), beta = Finite (-1/50)\<rparr>]"

definition example_covariance :: "(real list list) covariance_source" where
  "example_covariance =
     \<lparr>cov_get = (\<lambda>g candidates.
                   if g = ''G1'' \<or> g = ''G3'' \<or> g = ''G5''
                   then (Some (filter (\<lambda>x. x \<in> candidates) [''s2'', ''s1'']),
                         [[1, 1/5], [1/5, 1]])
                   else if g = ''G4'' then (Some [''s3''], [[1]])
                   else (None, [])),
      cov_n_snps = (\<lambda>g. if g = ''G1'' \<or> g = ''G3'' \<or> g = ''G5'' then 2 else if g = ''G4'' then 1 else 0)\<rparr>"

text \<open>
  Raw GWAS tables: one without a beta column, whose z-scores are strings and a float; one
  with a z-score that is no number; one without a beta column whose only z-score is
  \<open>"NA"\<close>; one with floats only, two of them not finite. The parser knows the one numeral
  of the data.
\<close>

definition example_float_of_string :: "string \<Rightarrow> float64 option" where
  "example_float_of_string s = (if s = ''1.5'' then Some (Finite (3/2)) else None)"

definition example_raw :: "unit gwas_frame" where
  "example_raw =
     WithoutBeta
       [\<lparr>r_snp = ''s1'', r_zscore = ZStr ''1.5'', r_beta = (), r_other = ()\<rparr>,
        \<lparr>r_snp = ''s2'', r_zscore = ZStr ''NA'', r_beta = (), r_other = ()\<rparr>,
        \<lparr>r_snp = ''s3'', r_zscore = ZFloat (Finite 2), r_beta = (), r_other = ()\<rparr>]"

definition example_raw_uncastable :: "unit gwas_frame" where
  "example_raw_uncastable =
     WithBeta
       [\<lparr>r_snp = ''s1'', r_zscore = ZStr ''abc'', r_beta = Finite (1/100), r_other = ()\<rparr>,
        \<lparr>r_snp = ''s2'', r_zscore = ZStr ''NA'', r_beta = Finite (1/50), r_other = ()\<rparr>]"

definition example_raw_all_na :: "unit gwas_frame" where
  "example_raw_all_na =
     WithoutBeta [\<lparr>r_snp = ''s2'', r_zscore = ZStr ''NA'', r_beta = (), r_other = ()\<rparr>]"

definition example_raw_floats :: "unit gwas_frame" where
  "example_raw_floats =
     WithBeta
       [\<lparr>r_snp = ''s1'', r_zscore = ZFloat (Finite 2), r_beta = Finite (1/100), r_other = ()\<rparr>,
        \<lparr>r_snp = ''s2'', r_zscore = ZFloat NaN, r_beta = Finite (1/50), r_other = ()\<rparr>,
        \<lparr>r_snp = ''s3'', r_zscore = ZFloat PInf, r_beta = NaN, r_other = ()\<rparr>]"

text \<open>
  Results of three genes: one with a z-score that is not finite, one without model
  metadata, one with the z-score 0. The survival function is that of a distribution
  function with the value 1/2 at 0.
\<close>

definition example_results :: "result_row list" where
  "example_results =
     [\<lparr>res_gene = ''G2'', res_zscore = NaN, res_effect_size = Flt NaN, res_var_g = Flt (Finite 1),
       res_n_snps_used = IntV 1, res_n_snps_in_cov = Flt NaN, res_n_snps_in_model = IntV 1\<rparr>,
      \<lparr>res_gene = ''G7'', res_zscore = Finite 1, res_effect_size = Flt (Finite 1),
       res_var_g = Flt (Finite 1), res_n_snps_used = IntV 1, res_n_snps_in_cov = Flt (Finite 1),
       res_n_snps_in_model = IntV 1\<rparr>,
      \<lparr>res_gene = ''G1'', res_zscore = Finite 0, res_effect_size = Flt (Finite 0),
       res_var_g = Flt (Finite 1), res_n_snps_used = IntV 2, res_n_snps_in_cov = Flt (Finite 2),
       res_n_snps_in_model = IntV 3\<rparr>]"

definition example_cdf :: "real \<Rightarrow> real" where
  "example_cdf x = (if x < 0 then 0 else if x = 0 then 1/2 else 1)"

definition example_norm_sf :: "float64 \<Rightarrow> float64" where
  "example_norm_sf z = (case z of Finite x \<Rightarrow> Finite (1 - example_cdf x) | _ \<Rightarrow> NaN)"

definition example_int_of_string :: "string \<Rightarrow> int option" where
  "example_int_of_string s = None"

section \<open>Properties\<close>

subsection \<open>Dictionaries\<close>

lemma map_of_dict_set: "map_of (dict_set k v d) = (map_of d)(k \<mapsto> v)"
  by (induction d) (auto simp: fun_eq_iff)

lemma keys_dict_set: "fst ` set (dict_set k v d) = insert k (fst ` set d)"
proof (induction d)
  case Nil
  show ?case by simp
next
  case (Cons p d)
  obtain a b where p: "p = (a, b)" by (cases p)
  show ?case using Cons by (simp add: p insert_commute)
qed

lemma distinct_dict_set: "distinct (map fst d) \<Longrightarrow> distinct (map fst (dict_set k v d))"
  by (induction d) (auto simp: keys_dict_set)

lemma fold_dict_set_map_of:
  "map_of (fold (\<lambda>x d. dict_set (key x) (val x) d) xs d0)
     = map_of d0 ++ map_of (rev (map (\<lambda>x. (key x, val x)) xs))"
  by (induction xs arbitrary: d0) (auto simp: map_of_dict_set fun_eq_iff map_add_def split: option.splits)

lemma map_of_dict_of:
  "map_of (dict_of key val xs) = map_of (rev (map (\<lambda>x. (key x, val x)) xs))"
  by (simp add: dict_of_def fold_dict_set_map_of)

lemma fold_dict_set_distinct:
  "distinct (map fst d0) \<Longrightarrow> distinct (map fst (fold (\<lambda>x d. dict_set (key x) (val x) d) xs d0))"
  by (induction xs arbitrary: d0) (auto simp: distinct_dict_set)

lemma distinct_dict_of: "distinct (map fst (dict_of key val xs))"
  by (simp add: dict_of_def fold_dict_set_distinct)

lemma fold_dict_set_keys:
  "fst ` set (fold (\<lambda>x d. dict_set (key x) (val x) d) xs d0) = fst ` set d0 \<union> key ` set xs"
  by (induction xs arbitrary: d0) (auto simp: keys_dict_set)

lemma keys_dict_of: "set (dict_keys (dict_of key val xs)) = key ` set xs"
  by (simp add: dict_of_def dict_keys_def fold_dict_set_keys)

lemma length_dict_of: "length (dict_of key val xs) = card (key ` set xs)"
proof -
  have "length (dict_of key val xs) = length (map fst (dict_of key val xs))" by simp
  also have "\<dots> = card (set (map fst (dict_of key val xs)))"
    using distinct_dict_of [of key val xs] by (simp only: distinct_card)
  also have "\<dots> = card (key ` set xs)"
    using keys_dict_of [of key val xs] by (simp add: dict_keys_def)
  finally show ?thesis .
qed

lemma length_dict_of_distinct:
  assumes "distinct (map key xs)"
  shows "length (dict_of key val xs) = length xs"
proof -
  have "card (key ` set xs) = card (set (map key xs))" by simp
  also have "\<dots> = length (map key xs)" using assms by (rule distinct_card)
  finally show ?thesis by (simp add: length_dict_of)
qed

subsection \<open>The last element with a key\<close>

lemma last_with_Nil [simp]: "last_with P [] = None"
  by (simp add: last_with_def)

lemma last_with_snoc [simp]:
  "last_with P (xs @ [x]) = (if P x then Some x else last_with P xs)"
  by (simp add: last_with_def)

lemma last_with_append:
  "last_with P (xs @ ys) = (case last_with P ys of None \<Rightarrow> last_with P xs | Some y \<Rightarrow> Some y)"
  by (induction ys rule: rev_induct) (simp_all add: append_assoc [symmetric] del: append_assoc)

lemma last_with_None: "last_with P xs = None \<longleftrightarrow> (\<forall>x\<in>set xs. \<not> P x)"
  by (auto simp: last_with_def find_None_iff)

lemma last_with_Some: "last_with P xs = Some x \<Longrightarrow> P x \<and> x \<in> set xs"
  by (induction xs rule: rev_induct) (auto split: if_splits)

lemma last_with_map:
  "last_with P (map f xs) = map_option f (last_with (\<lambda>x. P (f x)) xs)"
  by (induction xs rule: rev_induct) simp_all

lemma last_with_filter:
  "last_with P (filter Q xs) = last_with (\<lambda>x. P x \<and> Q x) xs"
  by (induction xs rule: rev_induct) simp_all

lemma map_of_rev_last_with:
  "map_of (rev (map (\<lambda>x. (key x, val x)) xs)) k = map_option val (last_with (\<lambda>x. key x = k) xs)"
  by (induction xs rule: rev_induct) simp_all

lemma dict_of_lookup:
  "map_of (dict_of key val xs) k = map_option val (last_with (\<lambda>x. key x = k) xs)"
  by (simp add: map_of_dict_of map_of_rev_last_with)

subsection \<open>Comprehensions\<close>

lemma comprehend_cong:
  "\<forall>x\<in>set xs. f x = g x \<Longrightarrow> comprehend f xs = comprehend g xs"
  by (induction xs) (simp_all split: sum.splits)

lemma comprehend_ok:
  "\<forall>x\<in>set xs. f x = Inr (h x) \<Longrightarrow> comprehend f xs = Inr (map h xs)"
  by (induction xs) simp_all

lemma comprehend_fail:
  "x \<in> set xs \<Longrightarrow> f x = Inl e \<Longrightarrow> \<exists>y\<in>set xs. \<exists>e'. f y = Inl e' \<and> comprehend f xs = Inl e'"
  by (induction xs) (auto split: sum.splits)

subsection \<open>Weight data\<close>

lemma weight_data_fold:
  "map_of (fst (fold add_weight_row ws ([], {}))) g =
     (if filter (\<lambda>w. gene w = g) ws = [] then None else Some (filter (\<lambda>w. gene w = g) ws))"
proof (induction ws rule: rev_induct)
  case Nil
  show ?case by simp
next
  case (snoc x ws)
  obtain d snps where acc: "fold add_weight_row ws ([], {}) = (d, snps)"
    by (cases "fold add_weight_row ws ([], {})")
  from snoc acc have IH: "map_of d g =
     (if filter (\<lambda>w. gene w = g) ws = [] then None else Some (filter (\<lambda>w. gene w = g) ws))"
    by simp
  have step: "fold add_weight_row (ws @ [x]) ([], {}) = add_weight_row x (d, snps)"
    by (simp add: acc)
  have "map_of (fst (add_weight_row x (d, snps))) g =
     (if filter (\<lambda>w. gene w = g) (ws @ [x]) = [] then None
      else Some (filter (\<lambda>w. gene w = g) (ws @ [x])))"
    by (cases "gene x = g")
       (simp_all add: add_weight_row_def Let_def dict_has_def map_of_dict_set IH)
  then show ?case by (simp only: step)
qed

lemma weight_data_snps:
  "snd (fold add_weight_row ws acc) = snd acc \<union> set (map rsid ws)"
  by (induction ws arbitrary: acc) (auto simp: add_weight_row_def Let_def split: prod.splits)

lemma prepare_weight_data_lookup:
  "map_of (fst (prepare_weight_data mdl)) g =
     (if filter (\<lambda>w. gene w = g) (weights mdl) = [] then None
      else Some (filter (\<lambda>w. gene w = g) (weights mdl)))"
  by (simp add: prepare_weight_data_def weight_data_fold)

lemma prepare_weight_data_snps:
  "snd (prepare_weight_data mdl) = set (map rsid (weights mdl))"
  by (simp add: prepare_weight_data_def weight_data_snps)

subsection \<open>The join of SimpleContext\<close>

lemma set_drop_duplicates: "set (drop_duplicates xs) = set xs"
  by (induction xs) auto

lemma distinct_drop_duplicates: "distinct (drop_duplicates xs)"
  by (induction xs) (auto simp: set_drop_duplicates)

lemma set_key_group:
  "set (key_group lkey rkey ls rs k) =
     {(l, r). l \<in> set ls \<and> r \<in> set rs \<and> lkey l = k \<and> rkey r = k}"
  by (auto simp: key_group_def)

lemma set_merge_on:
  "set (merge_on lkey rkey ls rs) = {(l, r). l \<in> set ls \<and> r \<in> set rs \<and> rkey r = lkey l}"
  by (auto simp: merge_on_def set_key_group set_drop_duplicates)

lemma last_with_cong:
  "\<forall>x\<in>set xs. P x = Q x \<Longrightarrow> last_with P xs = last_with Q xs"
  by (induction xs rule: rev_induct) simp_all

lemma last_with_concat_one:
  assumes "\<forall>k\<in>set ks. k \<noteq> x \<longrightarrow> (\<forall>y\<in>set (f k). \<not> P y)"
  shows "last_with P (concat (map f ks)) = (if x \<in> set ks then last_with P (f x) else None)"
  using assms
proof (induction ks rule: rev_induct)
  case Nil
  show ?case by simp
next
  case (snoc k ks)
  then have IH: "last_with P (concat (map f ks)) = (if x \<in> set ks then last_with P (f x) else None)"
    by simp
  have app: "last_with P (concat (map f (ks @ [k]))) =
               (case last_with P (f k) of None \<Rightarrow> last_with P (concat (map f ks)) | Some y \<Rightarrow> Some y)"
    by (simp add: last_with_append)
  show ?case
  proof (cases "k = x")
    case True
    show ?thesis unfolding app IH by (simp add: True split: option.splits)
  next
    case False
    with snoc.prems have "last_with P (f k) = None" by (simp add: last_with_None)
    then show ?thesis unfolding app IH using False by simp
  qed
qed

lemma key_group_last_with:
  "last_with (\<lambda>a. a_snp a = x) (map joined_row (key_group rsid snp w gs x)) =
     (case last_with (\<lambda>l. rsid l = x) w of
        None \<Rightarrow> None
      | Some l \<Rightarrow> map_option (\<lambda>r. joined_row (l, r)) (last_with (\<lambda>r. snp r = x) gs))"
proof (induction w rule: rev_induct)
  case Nil
  show ?case by (simp add: key_group_def)
next
  case (snoc l w)
  show ?case
  proof (cases "rsid l = x")
    case False
    then have "key_group rsid snp (w @ [l]) gs x = key_group rsid snp w gs x"
      by (simp add: key_group_def)
    then show ?thesis using snoc False by simp
  next
    case True
    let ?R = "map (\<lambda>r. joined_row (l, r)) (filter (\<lambda>r. snp r = x) gs)"
    have rows: "last_with (\<lambda>a. a_snp a = x) ?R
                  = map_option (\<lambda>r. joined_row (l, r)) (last_with (\<lambda>r. snp r = x) gs)"
    proof -
      have "last_with (\<lambda>r. snp r = x \<and> snp r = x) gs = last_with (\<lambda>r. snp r = x) gs"
        by (rule last_with_cong) simp
      then show ?thesis by (simp add: last_with_map last_with_filter joined_row_def)
    qed
    have split: "map joined_row (key_group rsid snp (w @ [l]) gs x)
                   = map joined_row (key_group rsid snp w gs x) @ ?R"
      by (simp add: key_group_def True comp_def)
    have "last_with (\<lambda>a. a_snp a = x) (map joined_row (key_group rsid snp (w @ [l]) gs x)) =
            (case last_with (\<lambda>a. a_snp a = x) ?R of
               None \<Rightarrow> last_with (\<lambda>a. a_snp a = x) (map joined_row (key_group rsid snp w gs x))
             | Some y \<Rightarrow> Some y)"
      unfolding split by (rule last_with_append)
    then show ?thesis
      unfolding rows by (simp add: True snoc.IH split: option.splits)
  qed
qed

lemma joined_last_with:
  "last_with (\<lambda>a. a_snp a = x) (map joined_row (merge_on rsid snp w gs)) =
     (case last_with (\<lambda>l. rsid l = x) w of
        None \<Rightarrow> None
      | Some l \<Rightarrow> map_option (\<lambda>r. joined_row (l, r)) (last_with (\<lambda>r. snp r = x) gs))"
proof -
  let ?ks = "drop_duplicates (map rsid w)"
  let ?f = "\<lambda>k. map joined_row (key_group rsid snp w gs k)"
  have m: "map joined_row (merge_on rsid snp w gs) = concat (map ?f ?ks)"
    by (simp add: merge_on_def map_concat comp_def)
  have other: "\<forall>k\<in>set ?ks. k \<noteq> x \<longrightarrow> (\<forall>y\<in>set (?f k). \<not> a_snp y = x)"
    by (auto simp: set_key_group joined_row_def)
  have one: "last_with (\<lambda>a. a_snp a = x) (concat (map ?f ?ks))
               = (if x \<in> set ?ks then last_with (\<lambda>a. a_snp a = x) (?f x) else None)"
    by (rule last_with_concat_one [OF other])
  show ?thesis
  proof (cases "x \<in> set ?ks")
    case True
    show ?thesis unfolding m one using True by (simp add: key_group_last_with)
  next
    case False
    then have "\<forall>l\<in>set w. rsid l \<noteq> x" by (auto simp: set_drop_duplicates)
    then have "last_with (\<lambda>l. rsid l = x) w = None" by (simp add: last_with_None)
    then show ?thesis unfolding m one using False by simp
  qed
qed

lemma aligned_at_None:
  "aligned_at w gwas x = None \<longleftrightarrow> x \<notin> rsid ` set w \<or> x \<notin> snp ` set gwas"
proof (cases "last_with (\<lambda>l. rsid l = x) w")
  case None
  moreover from None have "x \<notin> rsid ` set w" by (auto simp: last_with_None)
  ultimately show ?thesis by (simp add: aligned_at_def)
next
  case (Some l)
  then have "x \<in> rsid ` set w" by (auto dest: last_with_Some)
  moreover have "last_with (\<lambda>r. snp r = x) gwas = None \<longleftrightarrow> x \<notin> snp ` set gwas"
    by (auto simp: last_with_None)
  ultimately show ?thesis
    by (simp add: aligned_at_def Some)
qed

lemma aligned_at_dom: "{x. aligned_at w gwas x \<noteq> None} = rsid ` set w \<inter> snp ` set gwas"
  by (auto simp: aligned_at_None)

lemma aligned_at_snp: "aligned_at w gwas x = Some a \<Longrightarrow> a_snp a = x"
  by (auto simp: aligned_at_def joined_row_def split: option.splits dest: last_with_Some)

lemma aligned_at_row:
  "aligned_at w gwas x = Some a \<Longrightarrow>
     \<exists>l\<in>set w. \<exists>r\<in>set gwas. rsid l = x \<and> snp r = x \<and> a = joined_row (l, r)"
  by (auto simp: aligned_at_def split: option.splits dest!: last_with_Some)

lemma simple_dict_lookup:
  "map_of (dict_of a_snp (\<lambda>x. x)
             (map joined_row (merge_on rsid snp w (filter (\<lambda>r. snp r \<in> rsid ` set w) gwas)))) x
   = aligned_at w gwas x"
proof (cases "last_with (\<lambda>l. rsid l = x) w")
  case None
  then show ?thesis by (simp add: dict_of_lookup joined_last_with aligned_at_def option.map_ident)
next
  case (Some l)
  then have "x \<in> rsid ` set w" by (auto dest: last_with_Some)
  then have "last_with (\<lambda>r. snp r = x \<and> snp r \<in> rsid ` set w) gwas = last_with (\<lambda>r. snp r = x) gwas"
    by (intro last_with_cong) auto
  then show ?thesis
    by (simp add: dict_of_lookup joined_last_with aligned_at_def Some last_with_filter option.map_ident)
qed

lemma simple_candidates:
  "set (map a_snp (map joined_row (merge_on rsid snp w (filter (\<lambda>r. snp r \<in> rsid ` set w) gwas))))
   = rsid ` set w \<inter> snp ` set gwas"
  by (auto simp: set_merge_on joined_row_def image_iff) force+

lemma simple_dict_get:
  "dict_get (dict_of a_snp (\<lambda>x. x)
             (map joined_row (merge_on rsid snp w (filter (\<lambda>r. snp r \<in> rsid ` set w) gwas)))) x
   = aligned_get w gwas x"
  unfolding dict_get_def aligned_get_def simple_dict_lookup ..

lemma provide_calculation_eq:
  "provide_calculation self g =
     (let w = get_weights self g;
          (snps, cov) = cov_get (sc_covariance self) g (rsid ` set w \<inter> snp ` set (sc_gwas self))
      in case snps of
           None \<Rightarrow> Inr (length w, [], cov, None)
         | Some s \<Rightarrow>
             (case comprehend (aligned_get w (sc_gwas self)) s of
                Inl e \<Rightarrow> Inl e
              | Inr rows \<Rightarrow> Inr (length w, rows, cov, Some s)))"
proof -
  let ?w = "get_weights self g"
  let ?i = "map joined_row (merge_on rsid snp ?w (filter (\<lambda>r. snp r \<in> rsid ` set ?w) (sc_gwas self)))"
  have get: "dict_get (dict_of a_snp (\<lambda>x. x) ?i) = aligned_get ?w (sc_gwas self)"
    by (rule ext) (rule simple_dict_get)
  have cands: "set (map a_snp ?i) = rsid ` set ?w \<inter> snp ` set (sc_gwas self)"
    by (rule simple_candidates)
  have gw: "get_gwas self (map rsid ?w) = filter (\<lambda>r. snp r \<in> rsid ` set ?w) (sc_gwas self)"
    by (simp add: get_gwas_def)
  show ?thesis
    unfolding provide_calculation_def join_table_def Let_def gw get cands get_covariance_def
    by (simp split: prod.splits option.splits)
qed

lemma join_table_eq:
  "join_table self g =
     map joined_row (merge_on rsid snp (get_weights self g)
       (filter (\<lambda>r. snp r \<in> rsid ` set (get_weights self g)) (sc_gwas self)))"
  by (simp add: join_table_def get_gwas_def Let_def)

lemma join_table_snps:
  "set (map a_snp (join_table self g)) = rsid ` set (get_weights self g) \<inter> snp ` set (sc_gwas self)"
  unfolding join_table_eq by (rule simple_candidates)

lemma join_table_get:
  "dict_get (dict_of a_snp (\<lambda>x. x) (join_table self g)) x
     = aligned_get (get_weights self g) (sc_gwas self) x"
  unfolding join_table_eq by (rule simple_dict_get)

subsection \<open>The dictionaries of OptimizedContext\<close>

lemma gwas_data_lookup:
  "map_of (prepare_gwas_data gwas) x = last_with (\<lambda>r. snp r = x) gwas"
  by (simp add: prepare_gwas_data_def dict_of_lookup option.map_ident)

lemma gwas_data_key: "map_of (prepare_gwas_data gwas) x = Some r \<Longrightarrow> snp r = x"
  by (auto simp: gwas_data_lookup dest: last_with_Some)

lemma known_rows_snps:
  "\<forall>y r. gd y = Some r \<longrightarrow> snp r = y \<Longrightarrow>
   map snp (concat (map (\<lambda>x. case gd x of None \<Rightarrow> [] | Some r \<Rightarrow> [r]) ys))
     = filter (\<lambda>y. gd y \<noteq> None) ys"
  by (induction ys) (auto split: option.splits)

lemma known_rows_set:
  "set (concat (map (\<lambda>x. case gd x of None \<Rightarrow> [] | Some r \<Rightarrow> [r]) ys))
     = {r. \<exists>y\<in>set ys. gd y = Some r}"
  by (induction ys) (auto split: option.splits)

lemma map_of_distinct_keys:
  "distinct (map key xs) \<Longrightarrow>
   map_of (rev (map (\<lambda>x. (key x, val x)) xs)) k = Some v \<longleftrightarrow> (\<exists>x\<in>set xs. key x = k \<and> val x = v)"
proof -
  assume d: "distinct (map key xs)"
  have "distinct (map fst (rev (map (\<lambda>x. (key x, val x)) xs)))"
    using d by (simp add: rev_map [symmetric] comp_def)
  then have "map_of (rev (map (\<lambda>x. (key x, val x)) xs)) k = Some v
             \<longleftrightarrow> (k, v) \<in> set (rev (map (\<lambda>x. (key x, val x)) xs))"
    by (rule map_of_eq_Some_iff)
  then show ?thesis by auto
qed

lemma opt_gwas_dict_lookup:
  assumes "oc_gwas_data self = prepare_gwas_data gwas"
  shows "map_of (opt_get_gwas_dict self keys) x =
           (if x \<in> set keys then map_option (\<lambda>r. (zscore r, beta r)) (last_with (\<lambda>r. snp r = x) gwas)
            else None)"
proof -
  let ?gd = "map_of (prepare_gwas_data gwas)"
  let ?rows = "concat (map (\<lambda>x. case ?gd x of None \<Rightarrow> [] | Some r \<Rightarrow> [r]) (remdups keys))"
  let ?G = "map_of (opt_get_gwas_dict self keys)"
  have key: "\<forall>y r. ?gd y = Some r \<longrightarrow> snp r = y"
    by (auto dest: gwas_data_key)
  have G: "?G = map_of (rev (map (\<lambda>r. (snp r, (zscore r, beta r))) ?rows))"
    by (simp add: opt_get_gwas_dict_def assms Let_def map_of_dict_of)
  have dist: "distinct (map snp ?rows)"
    by (simp add: known_rows_snps [OF key])
  have iff: "?G x = Some v \<longleftrightarrow> (x \<in> set keys \<and> (\<exists>r. ?gd x = Some r \<and> v = (zscore r, beta r)))" for v
    unfolding G map_of_distinct_keys [OF dist] known_rows_set
    using key by auto
  show ?thesis
  proof (cases "?G x")
    case None
    have "\<not> (x \<in> set keys \<and> (\<exists>r. ?gd x = Some r))"
    proof
      assume "x \<in> set keys \<and> (\<exists>r. ?gd x = Some r)"
      then obtain r where "x \<in> set keys" "?gd x = Some r" by blast
      then have "?G x = Some (zscore r, beta r)" by (simp add: iff)
      with None show False by simp
    qed
    then show ?thesis using None by (auto simp: gwas_data_lookup)
  next
    case (Some v)
    then show ?thesis using iff [of v] by (auto simp: gwas_data_lookup)
  qed
qed

lemma opt_weight_data:
  "map_of (oc_weight_data (OptimizedContext gwas mdl covariance)) g =
     (if filter (\<lambda>w. gene w = g) (weights mdl) = [] then None
      else Some (filter (\<lambda>w. gene w = g) (weights mdl)))"
  by (simp add: OptimizedContext_def prepare_weight_data_lookup)

lemma opt_row_get:
  assumes "oc_gwas_data self = prepare_gwas_data gwas"
  shows "(case dict_get (dict_of rsid weight w) x of
            Inl e \<Rightarrow> Inl e
          | Inr wt \<Rightarrow>
              (case dict_get (opt_get_gwas_dict self (dict_keys (dict_of rsid weight w))) x of
                 Inl e \<Rightarrow> Inl e
               | Inr zb \<Rightarrow>
                   Inr \<lparr>a_snp = x, a_weight = wt, a_zscore = fst zb, a_beta = snd zb\<rparr>))
         = aligned_get w gwas x"
proof (cases "last_with (\<lambda>l. rsid l = x) w")
  case None
  then show ?thesis
    by (simp add: dict_get_def dict_of_lookup aligned_get_def aligned_at_def)
next
  case (Some l)
  then have "x \<in> rsid ` set w" by (auto dest: last_with_Some)
  then have inkeys: "x \<in> set (dict_keys (dict_of rsid weight w))"
    by (simp add: keys_dict_of)
  show ?thesis
  proof (cases "last_with (\<lambda>r. snp r = x) gwas")
    case None
    then show ?thesis
      by (simp add: dict_get_def dict_of_lookup aligned_get_def aligned_at_def Some
                    opt_gwas_dict_lookup [OF assms] inkeys)
  next
    case r: (Some r)
    then have "snp r = x" by (auto dest: last_with_Some)
    then show ?thesis
      by (simp add: dict_get_def dict_of_lookup aligned_get_def aligned_at_def Some r
                    opt_gwas_dict_lookup [OF assms] inkeys joined_row_def)
  qed
qed

lemma opt_candidates:
  assumes "oc_gwas_data self = prepare_gwas_data gwas"
  shows "set (dict_keys (filter (\<lambda>(x, v). dict_has (opt_get_gwas_dict self (dict_keys (dict_of rsid weight w))) x)
                          (dict_of rsid weight w)))
         = rsid ` set w \<inter> snp ` set gwas"
proof -
  let ?W = "dict_of rsid weight w"
  let ?G = "opt_get_gwas_dict self (dict_keys ?W)"
  have keys: "fst ` set ?W = rsid ` set w"
    using keys_dict_of [of rsid weight w] by (simp add: dict_keys_def)
  have has: "dict_has ?G x \<longleftrightarrow> x \<in> rsid ` set w \<and> x \<in> snp ` set gwas" for x
  proof -
    have "last_with (\<lambda>r. snp r = x) gwas \<noteq> None \<longleftrightarrow> x \<in> snp ` set gwas"
      by (auto simp: last_with_None)
    then show ?thesis
      by (simp add: dict_has_def opt_gwas_dict_lookup [OF assms] keys_dict_of)
  qed
  have "set (dict_keys (filter (\<lambda>(x, v). dict_has ?G x) ?W)) = {x \<in> fst ` set ?W. dict_has ?G x}"
    by (force simp: dict_keys_def)
  also have "\<dots> = rsid ` set w \<inter> snp ` set gwas"
    unfolding keys has by blast
  finally show ?thesis .
qed

lemma opt_provide_calculation_eq:
  assumes w: "w = filter (\<lambda>r. gene r = g) (weights mdl)" and ne: "w \<noteq> []"
  shows "opt_provide_calculation (OptimizedContext gwas mdl covariance) g =
     (let (snps, cov) = cov_get covariance g (rsid ` set w \<inter> snp ` set gwas)
      in case snps of
           None \<Rightarrow> Inr (card (rsid ` set w), [], cov, None)
         | Some s \<Rightarrow>
             (case comprehend (aligned_get w gwas) s of
                Inl e \<Rightarrow> Inl e
              | Inr rows \<Rightarrow> Inr (card (rsid ` set w), rows, cov, Some s)))"
proof -
  let ?self = "OptimizedContext gwas mdl covariance"
  have gd: "oc_gwas_data ?self = prepare_gwas_data gwas"
    by (simp add: OptimizedContext_def)
  have cv: "oc_covariance ?self = covariance"
    by (simp add: OptimizedContext_def)
  have wd: "opt_get_weights_dict ?self g = Inr (dict_of rsid weight w)"
    using w ne by (simp add: opt_get_weights_dict_def dict_get_def opt_weight_data)
  have rowf: "(\<lambda>x. case dict_get (dict_of rsid weight w) x of
            Inl e \<Rightarrow> Inl e
          | Inr wt \<Rightarrow>
              (case dict_get (opt_get_gwas_dict ?self (dict_keys (dict_of rsid weight w))) x of
                 Inl e \<Rightarrow> Inl e
               | Inr zb \<Rightarrow>
                   Inr \<lparr>a_snp = x, a_weight = wt, a_zscore = fst zb, a_beta = snd zb\<rparr>))
         = aligned_get w gwas"
    by (rule ext) (rule opt_row_get [OF gd])
  show ?thesis
    unfolding opt_provide_calculation_def wd sum.case Let_def rowf opt_candidates [OF gd]
              get_covariance_def cv length_dict_of
    by (simp split: prod.splits option.splits)
qed

lemma opt_provide_calculation_absent:
  assumes "filter (\<lambda>r. gene r = g) (weights mdl) = []"
  shows "opt_provide_calculation (OptimizedContext gwas mdl covariance) g = Inl (KeyError g)"
  using assms by (simp add: opt_provide_calculation_def opt_get_weights_dict_def dict_get_def opt_weight_data)

lemma comprehend_aligned_ok:
  "set s \<subseteq> rsid ` set w \<inter> snp ` set gwas \<Longrightarrow>
   comprehend (aligned_get w gwas) s = Inr (map (\<lambda>x. the (aligned_at w gwas x)) s)"
proof (rule comprehend_ok, rule ballI)
  fix x assume "set s \<subseteq> rsid ` set w \<inter> snp ` set gwas" "x \<in> set s"
  then have "aligned_at w gwas x \<noteq> None" by (auto simp: aligned_at_None)
  then show "aligned_get w gwas x = Inr (the (aligned_at w gwas x))"
    by (auto simp: aligned_get_def)
qed

lemma comprehend_aligned_fail:
  assumes "\<not> set s \<subseteq> rsid ` set w \<inter> snp ` set gwas"
  shows "\<exists>x\<in>set s. x \<notin> rsid ` set w \<inter> snp ` set gwas \<and>
           comprehend (aligned_get w gwas) s = Inl (KeyError x)"
proof -
  from assms obtain x where x: "x \<in> set s" "x \<notin> rsid ` set w \<inter> snp ` set gwas" by blast
  then have "aligned_at w gwas x = None" by (simp add: aligned_at_None)
  then have "aligned_get w gwas x = Inl (KeyError x)" by (simp add: aligned_get_def)
  with x(1) comprehend_fail [of x s "aligned_get w gwas" "KeyError x"]
  obtain y e' where y: "y \<in> set s" "aligned_get w gwas y = Inl e'"
    "comprehend (aligned_get w gwas) s = Inl e'" by blast
  from y(2) have "e' = KeyError y \<and> aligned_at w gwas y = None"
    by (auto simp: aligned_get_def split: option.splits)
  then show ?thesis using y by (auto simp: aligned_at_None)
qed

lemma aligned_rows_snps:
  "set s \<subseteq> rsid ` set w \<inter> snp ` set gwas \<Longrightarrow> map a_snp (map (\<lambda>x. the (aligned_at w gwas x)) s) = s"
proof (induction s)
  case Nil
  show ?case by simp
next
  case (Cons x s)
  then have "aligned_at w gwas x \<noteq> None" by (auto simp: aligned_at_None)
  then obtain a where "aligned_at w gwas x = Some a" by blast
  then show ?case using Cons by (simp add: aligned_at_snp)
qed

lemma sc_simps:
  "sc_gwas (SimpleContext gwas mdl covariance) = gwas"
  "sc_model (SimpleContext gwas mdl covariance) = mdl"
  "sc_covariance (SimpleContext gwas mdl covariance) = covariance"
  by (simp_all add: SimpleContext_def)

lemma get_weights_simple:
  "get_weights (SimpleContext gwas mdl covariance) g = filter (\<lambda>r. gene r = g) (weights mdl)"
  by (simp add: get_weights_def sc_simps)

lemma get_weights_empty_iff:
  "filter (\<lambda>r. gene r = g) ws = [] \<longleftrightarrow> g \<notin> gene ` set ws"
  by (auto simp: filter_empty_conv)

lemma aligned_rows_in_join:
  assumes "aligned_at (get_weights self g) (sc_gwas self) x = Some a"
  shows "a \<in> set (join_table self g)"
proof -
  from aligned_at_row [OF assms]
  obtain l r where lr: "l \<in> set (get_weights self g)" "r \<in> set (sc_gwas self)"
    "rsid l = x" "snp r = x" "a = joined_row (l, r)" by blast
  then have "(l, r) \<in> set (merge_on rsid snp (get_weights self g)
       (filter (\<lambda>r. snp r \<in> rsid ` set (get_weights self g)) (sc_gwas self)))"
    by (auto simp: set_merge_on)
  then show ?thesis unfolding join_table_eq using lr(5) by auto
qed

lemma simple_served:
  assumes cov: "get_covariance (sc_covariance self) g (set (map a_snp (join_table self g))) = (Some s, m)"
      and sub: "set s \<subseteq> set (map a_snp (join_table self g))"
  shows "provide_calculation self g =
           Inr (length (get_weights self g),
                map (\<lambda>x. the (aligned_at (get_weights self g) (sc_gwas self) x)) s, m, Some s)"
proof -
  let ?w = "get_weights self g"
  let ?c = "rsid ` set ?w \<inter> snp ` set (sc_gwas self)"
  have c: "set (map a_snp (join_table self g)) = ?c" by (rule join_table_snps)
  from cov have cov': "cov_get (sc_covariance self) g ?c = (Some s, m)"
    unfolding c get_covariance_def .
  from sub have sub': "set s \<subseteq> ?c" unfolding c .
  show ?thesis
    by (simp add: provide_calculation_eq Let_def cov' comprehend_aligned_ok [OF sub'])
qed

lemma opt_served:
  assumes cov: "get_covariance covariance g
                  (set (map a_snp (join_table (SimpleContext gwas mdl covariance) g))) = (Some s, m)"
      and sub: "set s \<subseteq> set (map a_snp (join_table (SimpleContext gwas mdl covariance) g))"
      and g: "g \<in> gene ` set (weights mdl)"
  shows "opt_provide_calculation (OptimizedContext gwas mdl covariance) g =
           Inr (card (rsid ` set (get_weights (SimpleContext gwas mdl covariance) g)),
                map (\<lambda>x. the (aligned_at (get_weights (SimpleContext gwas mdl covariance) g) gwas x)) s,
                m, Some s)"
proof -
  let ?w = "filter (\<lambda>r. gene r = g) (weights mdl)"
  let ?c = "rsid ` set ?w \<inter> snp ` set gwas"
  have c: "set (map a_snp (join_table (SimpleContext gwas mdl covariance) g)) = ?c"
    unfolding join_table_snps by (simp add: get_weights_simple sc_simps)
  from cov have cov': "cov_get covariance g ?c = (Some s, m)"
    unfolding c get_covariance_def .
  from sub have sub': "set s \<subseteq> ?c" unfolding c .
  from g have ne: "?w \<noteq> []" by (simp add: get_weights_empty_iff)
  show ?thesis
    using cov'
    by (simp add: opt_provide_calculation_eq [OF refl ne] Let_def get_weights_simple
                  comprehend_aligned_ok [OF sub'])
qed

subsection \<open>The data intersection\<close>

lemma weight_data_distinct_step:
  "distinct (map fst (fst acc)) \<Longrightarrow> distinct (map fst (fst (add_weight_row x acc)))"
  by (cases acc) (simp add: add_weight_row_def Let_def distinct_dict_set)

lemma weight_data_distinct_fold:
  "distinct (map fst (fst acc)) \<Longrightarrow> distinct (map fst (fst (fold add_weight_row ws acc)))"
  by (induction ws arbitrary: acc) (simp_all add: weight_data_distinct_step)

lemma weight_data_distinct: "distinct (map fst (fst (prepare_weight_data mdl)))"
  by (simp add: prepare_weight_data_def weight_data_distinct_fold)

lemma weight_data_entries:
  "(g, e) \<in> set (fst (prepare_weight_data mdl)) \<longleftrightarrow>
     e = filter (\<lambda>w. gene w = g) (weights mdl) \<and> e \<noteq> []"
proof -
  have "(g, e) \<in> set (fst (prepare_weight_data mdl)) \<longleftrightarrow> map_of (fst (prepare_weight_data mdl)) g = Some e"
    using weight_data_distinct [of mdl] by simp
  then show ?thesis by (auto simp: prepare_weight_data_lookup)
qed

lemma gwas_data_has: "dict_has (prepare_gwas_data gwas) s \<longleftrightarrow> s \<in> snp ` set gwas"
  by (auto simp: dict_has_def gwas_data_lookup last_with_None)

lemma gwas_data_keys: "set (dict_keys (prepare_gwas_data gwas)) = snp ` set gwas"
  by (simp add: prepare_gwas_data_def keys_dict_of)

lemma intersect_gene_eq:
  "intersect_gene gd item (genes, snps) =
     (genes \<union> (if \<exists>w\<in>set (snd item). dict_has gd (rsid w) then {fst item} else {}),
      snps \<union> {s \<in> rsid ` set (snd item). dict_has gd s})"
proof -
  have "fold (\<lambda>s (genes, snps).
             if dict_has gd s then (insert g genes, insert s snps) else (genes, snps)) ss (genes, snps)
        = (genes \<union> (if \<exists>s\<in>set ss. dict_has gd s then {g} else {}),
           snps \<union> {s \<in> set ss. dict_has gd s})" for g ss
    by (induction ss arbitrary: genes snps) auto
  from this [of "fst item" "map rsid (snd item)"] show ?thesis
    by (simp add: intersect_gene_def)
qed

lemma data_intersection_2_fold:
  "fold (intersect_gene gd) d (genes, snps) =
     (genes \<union> {g. \<exists>e. (g, e) \<in> set d \<and> (\<exists>w\<in>set e. dict_has gd (rsid w))},
      snps \<union> {s. \<exists>g e. (g, e) \<in> set d \<and> s \<in> rsid ` set e \<and> dict_has gd s})"
proof (induction d arbitrary: genes snps)
  case Nil
  show ?case by simp
next
  case (Cons item d)
  obtain g e where item: "item = (g, e)" by (cases item)
  let ?hit = "\<exists>w\<in>set e. dict_has gd (rsid w)"
  have 1: "(genes \<union> (if ?hit then {g} else {})) \<union>
             {g'. \<exists>e'. (g', e') \<in> set d \<and> (\<exists>w\<in>set e'. dict_has gd (rsid w))}
           = genes \<union> {g'. \<exists>e'. (g', e') \<in> set ((g, e) # d) \<and> (\<exists>w\<in>set e'. dict_has gd (rsid w))}"
    by (cases ?hit) auto
  have 2: "(snps \<union> {s \<in> rsid ` set e. dict_has gd s}) \<union>
             {s. \<exists>g' e'. (g', e') \<in> set d \<and> s \<in> rsid ` set e' \<and> dict_has gd s}
           = snps \<union> {s. \<exists>g' e'. (g', e') \<in> set ((g, e) # d) \<and> s \<in> rsid ` set e' \<and> dict_has gd s}"
    by auto
  have "fold (intersect_gene gd) (item # d) (genes, snps)
          = fold (intersect_gene gd) d (intersect_gene gd (g, e) (genes, snps))"
    by (simp add: item)
  also have "\<dots> = (genes \<union> {g'. \<exists>e'. (g', e') \<in> set ((g, e) # d) \<and> (\<exists>w\<in>set e'. dict_has gd (rsid w))},
                    snps \<union> {s. \<exists>g' e'. (g', e') \<in> set ((g, e) # d) \<and> s \<in> rsid ` set e' \<and> dict_has gd s})"
    unfolding intersect_gene_eq Cons.IH fst_conv snd_conv 1 2 ..
  finally show ?case by (simp only: item)
qed

lemma data_intersection_2_sets:
  "opt_get_data_intersection (OptimizedContext gwas mdl covariance) =
     ({gene w |w. w \<in> set (weights mdl) \<and> rsid w \<in> snp ` set gwas},
      {rsid w |w. w \<in> set (weights mdl) \<and> rsid w \<in> snp ` set gwas})"
proof -
  have "opt_get_data_intersection (OptimizedContext gwas mdl covariance) =
          fold (intersect_gene (prepare_gwas_data gwas)) (fst (prepare_weight_data mdl)) ({}, {})"
    by (simp add: opt_get_data_intersection_def data_intersection_2_def OptimizedContext_def)
  also have "\<dots> = ({gene w |w. w \<in> set (weights mdl) \<and> rsid w \<in> snp ` set gwas},
      {rsid w |w. w \<in> set (weights mdl) \<and> rsid w \<in> snp ` set gwas})"
  proof -
    have g: "{} \<union> {g. \<exists>e. (g, e) \<in> set (fst (prepare_weight_data mdl)) \<and>
                    (\<exists>w\<in>set e. dict_has (prepare_gwas_data gwas) (rsid w))}
             = {gene w |w. w \<in> set (weights mdl) \<and> rsid w \<in> snp ` set gwas}"
      unfolding weight_data_entries gwas_data_has
    proof (intro set_eqI iffI)
      fix x assume "x \<in> {} \<union> {g. \<exists>e. (e = filter (\<lambda>w. gene w = g) (weights mdl) \<and> e \<noteq> []) \<and>
                    (\<exists>w\<in>set e. rsid w \<in> snp ` set gwas)}"
      then obtain w where "w \<in> set (filter (\<lambda>w. gene w = x) (weights mdl))" "rsid w \<in> snp ` set gwas"
        by blast
      then have "w \<in> set (weights mdl) \<and> gene w = x \<and> rsid w \<in> snp ` set gwas" by simp
      then show "x \<in> {gene w |w. w \<in> set (weights mdl) \<and> rsid w \<in> snp ` set gwas}" by blast
    next
      fix x assume "x \<in> {gene w |w. w \<in> set (weights mdl) \<and> rsid w \<in> snp ` set gwas}"
      then obtain w where w: "w \<in> set (weights mdl)" "x = gene w" "rsid w \<in> snp ` set gwas" by blast
      let ?e = "filter (\<lambda>w'. gene w' = x) (weights mdl)"
      from w have in_e: "w \<in> set ?e" by simp
      then have "?e \<noteq> []" by (metis empty_iff list.set(1))
      with in_e w(3) show "x \<in> {} \<union> {g. \<exists>e. (e = filter (\<lambda>w. gene w = g) (weights mdl) \<and> e \<noteq> []) \<and>
                    (\<exists>w\<in>set e. rsid w \<in> snp ` set gwas)}" by blast
    qed
    have s: "{} \<union> {s. \<exists>g e. (g, e) \<in> set (fst (prepare_weight_data mdl)) \<and>
                    s \<in> rsid ` set e \<and> dict_has (prepare_gwas_data gwas) s}
             = {rsid w |w. w \<in> set (weights mdl) \<and> rsid w \<in> snp ` set gwas}"
      unfolding weight_data_entries gwas_data_has
    proof (intro set_eqI iffI)
      fix x assume "x \<in> {} \<union> {s. \<exists>g e. (e = filter (\<lambda>w. gene w = g) (weights mdl) \<and> e \<noteq> []) \<and>
                    s \<in> rsid ` set e \<and> s \<in> snp ` set gwas}"
      then show "x \<in> {rsid w |w. w \<in> set (weights mdl) \<and> rsid w \<in> snp ` set gwas}" by auto
    next
      fix x assume "x \<in> {rsid w |w. w \<in> set (weights mdl) \<and> rsid w \<in> snp ` set gwas}"
      then obtain w where w: "w \<in> set (weights mdl)" "x = rsid w" "rsid w \<in> snp ` set gwas" by blast
      let ?e = "filter (\<lambda>w'. gene w' = gene w) (weights mdl)"
      from w have "w \<in> set ?e" by simp
      then have "?e \<noteq> [] \<and> x \<in> rsid ` set ?e" using w(2) by (metis empty_iff imageI list.set(1))
      with w show "x \<in> {} \<union> {s. \<exists>g e. (e = filter (\<lambda>w. gene w = g) (weights mdl) \<and> e \<noteq> []) \<and>
                    s \<in> rsid ` set e \<and> s \<in> snp ` set gwas}" by blast
    qed
    show ?thesis unfolding data_intersection_2_fold g s ..
  qed
  finally show ?thesis .
qed

lemma data_intersection_sets:
  "set (fst (get_data_intersection (SimpleContext gwas mdl covariance)))
     = {gene w |w. w \<in> set (weights mdl) \<and> rsid w \<in> snp ` set gwas}"
  "set (snd (get_data_intersection (SimpleContext gwas mdl covariance)))
     = {rsid w |w. w \<in> set (weights mdl) \<and> rsid w \<in> snp ` set gwas}"
proof -
  let ?k = "merge_on rsid snp (weights mdl) gwas"
  have k: "set ?k = {(l, r). l \<in> set (weights mdl) \<and> r \<in> set gwas \<and> snp r = rsid l}"
    by (rule set_merge_on)
  have "(\<lambda>p. gene (fst p)) ` set ?k = {gene w |w. w \<in> set (weights mdl) \<and> rsid w \<in> snp ` set gwas}"
    unfolding k by (auto simp: image_iff) (metis+)
  then show "set (fst (get_data_intersection (SimpleContext gwas mdl covariance)))
     = {gene w |w. w \<in> set (weights mdl) \<and> rsid w \<in> snp ` set gwas}"
    by (simp add: get_data_intersection_def data_intersection_def Let_def sc_simps set_drop_duplicates)
  have "(\<lambda>p. rsid (fst p)) ` set ?k = {rsid w |w. w \<in> set (weights mdl) \<and> rsid w \<in> snp ` set gwas}"
    unfolding k by (auto simp: image_iff) (metis+)
  then show "set (snd (get_data_intersection (SimpleContext gwas mdl covariance)))
     = {rsid w |w. w \<in> set (weights mdl) \<and> rsid w \<in> snp ` set gwas}"
    by (simp add: get_data_intersection_def data_intersection_def Let_def sc_simps set_drop_duplicates)
qed

subsection \<open>GWAS preparation\<close>

lemma cast_row_castable:
  "castable fos (r_zscore r) \<Longrightarrow>
   cast_row fos r = Inr (r\<lparr>r_zscore := ZFloat (projr (astype_float64 fos (r_zscore r)))\<rparr>)"
  by (auto simp: cast_row_def castable_def split: sum.splits)

lemma cast_row_uncastable:
  "\<not> castable fos (r_zscore r) \<Longrightarrow> \<exists>e. cast_row fos r = Inl e"
  by (auto simp: cast_row_def castable_def split: sum.splits)

lemma prepare_try_ok:
  assumes "\<forall>r\<in>set (filter (\<lambda>r. r_zscore r \<noteq> ZStr ''NA'') rows). castable fos (r_zscore r)"
  shows "prepare_try fos rows =
           (map (\<lambda>r. r\<lparr>r_zscore := ZFloat (projr (astype_float64 fos (r_zscore r)))\<rparr>)
                (filter (\<lambda>r. r_zscore r \<noteq> ZStr ''NA'') rows), [])"
proof -
  let ?kept = "filter (\<lambda>r. r_zscore r \<noteq> ZStr ''NA'') rows"
  have "comprehend (cast_row fos) ?kept =
          Inr (map (\<lambda>r. r\<lparr>r_zscore := ZFloat (projr (astype_float64 fos (r_zscore r)))\<rparr>) ?kept)"
    using assms by (intro comprehend_ok ballI) (simp add: cast_row_castable)
  then show ?thesis by (simp add: prepare_try_def Let_def)
qed

lemma prepare_try_fail:
  assumes "\<not> (\<forall>r\<in>set (filter (\<lambda>r. r_zscore r \<noteq> ZStr ''NA'') rows). castable fos (r_zscore r))"
  shows "prepare_try fos rows =
           (filter (\<lambda>r. r_zscore r \<noteq> ZStr ''NA'') rows, [Info ''Unexpected issue preparing gwas...''])"
proof -
  let ?kept = "filter (\<lambda>r. r_zscore r \<noteq> ZStr ''NA'') rows"
  from assms obtain r where r: "r \<in> set ?kept" "\<not> castable fos (r_zscore r)" by blast
  from cast_row_uncastable [OF r(2)] obtain e where "cast_row fos r = Inl e" by blast
  with r(1) comprehend_fail [of r ?kept "cast_row fos" e]
  obtain e' where "comprehend (cast_row fos) ?kept = Inl e'" by blast
  then show ?thesis by (simp add: prepare_try_def Let_def)
qed

lemmas gwas_eval =
  prepare_gwas_def prepare_try_def cast_row_def astype_float64_def with_nan_beta_def
  sanitized_gwas_def select_columns_def frame_rows_def castable_def finite_zscore_def
  example_float_of_string_def example_raw_def example_raw_uncastable_def example_raw_floats_def
  example_raw_all_na_def

lemma example_prepare:
  "prepare_gwas example_float_of_string example_raw =
     Inr (WithBeta
            [\<lparr>r_snp = ''s1'', r_zscore = ZFloat (Finite (3/2)), r_beta = NaN, r_other = ()\<rparr>,
             \<lparr>r_snp = ''s3'', r_zscore = ZFloat (Finite 2), r_beta = NaN, r_other = ()\<rparr>], [])"
  by (simp add: gwas_eval)

lemma example_prepare_uncastable:
  "prepare_gwas example_float_of_string example_raw_uncastable =
     Inr (WithBeta [\<lparr>r_snp = ''s1'', r_zscore = ZStr ''abc'', r_beta = Finite (1/100), r_other = ()\<rparr>],
          [Info ''Unexpected issue preparing gwas...''])"
  by (simp add: gwas_eval)

lemma example_prepare_all_na:
  "prepare_gwas example_float_of_string example_raw_all_na = Inl ValueError"
  by (simp add: gwas_eval)

lemma example_sanitized:
  "sanitized_gwas example_raw_floats =
     Inr ([\<lparr>snp = ''s1'', zscore = Finite 2, beta = Finite (1/100)\<rparr>],
          [Warning ''Discarding non finite GWAS zscores''])"
  by (simp add: gwas_eval)

lemma select_columns_float:
  "r_zscore r = ZFloat z \<Longrightarrow> select_columns r = Inr \<lparr>snp = r_snp r, zscore = z, beta = r_beta r\<rparr>"
  by (simp add: select_columns_def)

lemma select_all_ok:
  assumes "\<forall>r\<in>set rows. \<exists>z. r_zscore r = ZFloat z"
  shows "comprehend select_columns rows = Inr (map (\<lambda>r. projr (select_columns r)) rows)"
  using assms by (intro comprehend_ok ballI) (auto simp: select_columns_def)

lemma select_all_fail:
  assumes "\<not> (\<forall>r\<in>set rows. \<exists>z. r_zscore r = ZFloat z)"
  shows "\<exists>e. comprehend select_columns rows = Inl e"
proof -
  from assms obtain r where r: "r \<in> set rows" "\<forall>z. r_zscore r \<noteq> ZFloat z" by blast
  then have "select_columns r = Inl TypeError"
    by (cases "r_zscore r") (simp_all add: select_columns_def)
  with r(1) comprehend_fail [of r rows select_columns TypeError] show ?thesis by blast
qed

lemma selected_rows:
  assumes "\<forall>r\<in>set rows. \<exists>z. r_zscore r = ZFloat z"
  shows "map (\<lambda>r. (snp r, ZFloat (zscore r), Some (beta r)))
           (filter (\<lambda>r. isfinite (zscore r)) (map (\<lambda>r. projr (select_columns r)) rows))
         = map (\<lambda>(s, z, b, x). (s, z, b))
             (filter (\<lambda>(s, z, b, x). finite_zscore z)
                (map (\<lambda>r. (r_snp r, r_zscore r, Some (r_beta r), r_other r)) rows))"
  using assms
proof (induction rows)
  case Nil
  show ?case by simp
next
  case (Cons r rows)
  then obtain z where z: "r_zscore r = ZFloat z" by auto
  from Cons show ?case
    by (simp add: z select_columns_float [OF z] finite_zscore_def)
qed

subsection \<open>The order of the output\<close>

lemma f64_le_total: "x \<noteq> NaN \<Longrightarrow> y \<noteq> NaN \<Longrightarrow> f64_le x y \<or> f64_le y x"
  by (cases x; cases y) auto

lemma f64_le_trans: "f64_le x y \<Longrightarrow> f64_le y z \<Longrightarrow> f64_le x z"
  by (cases x; cases y; cases z) auto

lemma py_le_total:
  "number_of a \<noteq> Some NaN \<Longrightarrow> number_of b \<noteq> Some NaN \<Longrightarrow> py_le a b \<or> py_le b a"
  using f64_le_total by (cases a; cases b) auto

lemma py_le_numbers:
  "number_of a = Some x \<Longrightarrow> number_of b = Some y \<Longrightarrow> py_le a b = f64_le x y"
  by (cases a; cases b) auto

lemma py_le_number_string: "number_of a = Some x \<Longrightarrow> number_of b = None \<Longrightarrow> py_le a b"
  by (cases a; cases b) auto

lemma py_le_string_number: "number_of a = None \<Longrightarrow> number_of b = Some y \<Longrightarrow> \<not> py_le a b"
  by (cases a; cases b) auto

lemma py_le_trans:
  assumes "py_le a b" and "py_le b c"
  shows "py_le a c"
proof (cases "number_of c")
  case None
  then obtain t where c: "c = Str t" by (cases c) auto
  show ?thesis
  proof (cases "number_of a")
    case Some
    then show ?thesis using None by (rule py_le_number_string)
  next
    case a: None
    then obtain s where s: "a = Str s" by (cases a) auto
    with assms(1) obtain u where u: "b = Str u" by (cases b) auto
    from assms show ?thesis by (simp add: s u c)
  qed
next
  case (Some z)
  with assms(2) obtain y where y: "number_of b = Some y"
    using py_le_string_number [of b c z] by (cases "number_of b") auto
  with assms(1) obtain x where x: "number_of a = Some x"
    using py_le_string_number [of a b y] by (cases "number_of a") auto
  from assms have "f64_le x y" "f64_le y z"
    by (simp_all add: py_le_numbers [OF x y] py_le_numbers [OF y Some])
  then have "f64_le x z" by (rule f64_le_trans)
  then show ?thesis by (simp add: py_le_numbers [OF x Some])
qed

lemma py_le_Str_left: "py_le (Str s) c \<Longrightarrow> \<exists>t. c = Str t"
  by (cases c) auto

lemma fillna_number: "number_of (fillna c) \<noteq> Some NaN"
  by (cases c rule: fillna.cases) auto

lemma set_insort_pvalue: "set (insort_pvalue x ys) = insert x (set ys)"
  by (induction ys) auto

lemma mset_insort_pvalue: "mset (insort_pvalue x ys) = add_mset x (mset ys)"
  by (induction ys) auto

lemma sorted_insort_pvalue:
  assumes "sorted_wrt (\<lambda>a b. py_le (o_pvalue a) (o_pvalue b)) ys"
      and "number_of (o_pvalue x) \<noteq> Some NaN"
      and "\<forall>y\<in>set ys. number_of (o_pvalue y) \<noteq> Some NaN"
  shows "sorted_wrt (\<lambda>a b. py_le (o_pvalue a) (o_pvalue b)) (insort_pvalue x ys)"
  using assms
proof (induction ys)
  case Nil
  show ?case by simp
next
  case (Cons y ys)
  show ?case
  proof (cases "py_le (o_pvalue x) (o_pvalue y)")
    case True
    with Cons.prems(1) show ?thesis by (auto intro: py_le_trans)
  next
    case False
    with Cons.prems have yx: "py_le (o_pvalue y) (o_pvalue x)"
      using py_le_total [of "o_pvalue x" "o_pvalue y"] by auto
    from Cons have "sorted_wrt (\<lambda>a b. py_le (o_pvalue a) (o_pvalue b)) (insort_pvalue x ys)" by simp
    with Cons.prems(1) yx False show ?thesis by (auto simp: set_insort_pvalue)
  qed
qed

lemma mset_sort_values: "mset (sort_values_pvalue rows) = mset rows"
  by (induction rows) (simp_all add: sort_values_pvalue_def mset_insort_pvalue)

lemma set_sort_values: "set (sort_values_pvalue rows) = set rows"
  using mset_sort_values [of rows] by (metis set_mset_mset)

lemma length_sort_values: "length (sort_values_pvalue rows) = length rows"
  using mset_sort_values [of rows] by (metis size_mset)

lemma sorted_sort_values:
  "\<forall>y\<in>set rows. number_of (o_pvalue y) \<noteq> Some NaN \<Longrightarrow>
   sorted_wrt (\<lambda>a b. py_le (o_pvalue a) (o_pvalue b)) (sort_values_pvalue rows)"
proof (induction rows)
  case Nil
  show ?case by (simp add: sort_values_pvalue_def)
next
  case (Cons x rows)
  then have "sorted_wrt (\<lambda>a b. py_le (o_pvalue a) (o_pvalue b)) (sort_values_pvalue rows)" by simp
  moreover have "\<forall>y\<in>set (sort_values_pvalue rows). number_of (o_pvalue y) \<noteq> Some NaN"
    using Cons.prems by (simp add: set_sort_values)
  ultimately have "sorted_wrt (\<lambda>a b. py_le (o_pvalue a) (o_pvalue b))
                     (insort_pvalue x (sort_values_pvalue rows))"
    using Cons.prems by (intro sorted_insort_pvalue) simp_all
  then show ?case by (simp add: sort_values_pvalue_def)
qed

lemma output_row_pvalue:
  "o_pvalue (output_row sf ios strip p) = fillna (Flt (pvalue_of sf (res_zscore (fst p))))"
  by (cases p) (simp add: output_row_def)

lemma output_row_pvalue_missing:
  "\<not> isfinite (res_zscore (fst p)) \<Longrightarrow> o_pvalue (output_row sf ios strip p) = Str ''NA''"
  by (simp add: output_row_pvalue pvalue_of_def)

lemma sum_list_filter_disjoint:
  "\<forall>x\<in>set xs. \<not> (P x \<and> Q x) \<Longrightarrow>
   (\<Sum>x\<leftarrow>filter (\<lambda>x. P x \<or> Q x) xs. g x)
     = (\<Sum>x\<leftarrow>filter P xs. g x) + (\<Sum>x\<leftarrow>filter Q xs. (g x :: nat))"
  by (induction xs) auto

lemma sum_list_groups:
  "distinct ks \<Longrightarrow>
   (\<Sum>k\<leftarrow>ks. \<Sum>l\<leftarrow>filter (\<lambda>l. key l = k) ls. g l)
     = (\<Sum>l\<leftarrow>filter (\<lambda>l. key l \<in> set ks) ls. (g l :: nat))"
proof (induction ks)
  case Nil
  show ?case by simp
next
  case (Cons k ks)
  have "(\<Sum>l\<leftarrow>filter (\<lambda>l. key l \<in> set (k # ks)) ls. g l)
          = (\<Sum>l\<leftarrow>filter (\<lambda>l. key l = k \<or> key l \<in> set ks) ls. g l)"
    by simp
  also have "\<dots> = (\<Sum>l\<leftarrow>filter (\<lambda>l. key l = k) ls. g l)
                    + (\<Sum>l\<leftarrow>filter (\<lambda>l. key l \<in> set ks) ls. g l)"
    using Cons.prems by (intro sum_list_filter_disjoint) auto
  finally show ?case using Cons by simp
qed

lemma length_key_group:
  "length (key_group lkey rkey ls rs k)
     = (\<Sum>l\<leftarrow>filter (\<lambda>l. lkey l = k) ls. length (filter (\<lambda>r. rkey r = lkey l) rs))"
proof -
  have "map (\<lambda>l. length (filter (\<lambda>r. rkey r = k) rs)) (filter (\<lambda>l. lkey l = k) ls)
          = map (\<lambda>l. length (filter (\<lambda>r. rkey r = lkey l) rs)) (filter (\<lambda>l. lkey l = k) ls)"
    by (rule map_cong) simp_all
  then have "(\<Sum>l\<leftarrow>filter (\<lambda>l. lkey l = k) ls. length (filter (\<lambda>r. rkey r = k) rs))
               = (\<Sum>l\<leftarrow>filter (\<lambda>l. lkey l = k) ls. length (filter (\<lambda>r. rkey r = lkey l) rs))"
    by (rule arg_cong)
  then show ?thesis by (simp add: key_group_def length_concat comp_def)
qed

lemma length_merge_on:
  "length (merge_on lkey rkey ls rs) = (\<Sum>l\<leftarrow>ls. length (filter (\<lambda>r. rkey r = lkey l) rs))"
proof -
  let ?g = "\<lambda>l. length (filter (\<lambda>r. rkey r = lkey l) rs)"
  let ?ks = "drop_duplicates (map lkey ls)"
  have "length (merge_on lkey rkey ls rs) = (\<Sum>k\<leftarrow>?ks. length (key_group lkey rkey ls rs k))"
    by (simp add: merge_on_def length_concat comp_def)
  also have "\<dots> = (\<Sum>k\<leftarrow>?ks. \<Sum>l\<leftarrow>filter (\<lambda>l. lkey l = k) ls. ?g l)"
    by (simp only: length_key_group)
  also have "\<dots> = (\<Sum>l\<leftarrow>filter (\<lambda>l. lkey l \<in> set ?ks) ls. ?g l)"
    by (rule sum_list_groups) (rule distinct_drop_duplicates)
  also have "filter (\<lambda>l. lkey l \<in> set ?ks) ls = ls"
    by (simp add: set_drop_duplicates filter_id_conv)
  finally show ?thesis .
qed

subsection \<open>The data set, evaluated\<close>

lemma example_join_G1:
  "join_table (SimpleContext example_gwas example_model example_covariance) ''G1'' =
     [\<lparr>a_snp = ''s1'', a_weight = Finite (1/2), a_zscore = Finite 2, a_beta = Finite (1/100)\<rparr>,
      \<lparr>a_snp = ''s2'', a_weight = Finite (-3/10), a_zscore = Finite (-1), a_beta = Finite (-1/50)\<rparr>]"
  by (simp add: join_table_def get_weights_def get_gwas_def merge_on_def key_group_def joined_row_def
                SimpleContext_def example_model_def example_gwas_def)

lemma example_join_G4:
  "join_table (SimpleContext example_gwas example_model example_covariance) ''G4'' =
     [\<lparr>a_snp = ''s1'', a_weight = Finite 2, a_zscore = Finite 2, a_beta = Finite (1/100)\<rparr>]"
  by (simp add: join_table_def get_weights_def get_gwas_def merge_on_def key_group_def joined_row_def
                SimpleContext_def example_model_def example_gwas_def)

lemma example_cov_G1:
  "get_covariance example_covariance ''G1'' {''s1'', ''s2''} = (Some [''s2'', ''s1''], [[1, 1/5], [1/5, 1]])"
  by (simp add: get_covariance_def example_covariance_def)

lemma example_cov_G4:
  "get_covariance example_covariance ''G4'' {''s1''} = (Some [''s3''], [[1]])"
  by (simp add: get_covariance_def example_covariance_def)

lemmas simple_eval =
  provide_calculation_def join_table_def get_weights_def get_gwas_def merge_on_def key_group_def joined_row_def
  SimpleContext_def get_covariance_def dict_of_def dict_get_def
  example_model_def example_gwas_def example_covariance_def

lemmas opt_eval =
  opt_provide_calculation_def opt_get_weights_dict_def opt_get_gwas_dict_def OptimizedContext_def
  prepare_weight_data_def add_weight_row_def prepare_gwas_data_def get_covariance_def
  dict_of_def dict_get_def dict_has_def dict_keys_def
  example_model_def example_gwas_def example_covariance_def

lemma example_simple_G1:
  "provide_calculation (SimpleContext example_gwas example_model example_covariance) ''G1'' =
     Inr (3,
          [\<lparr>a_snp = ''s2'', a_weight = Finite (-3/10), a_zscore = Finite (-1), a_beta = Finite (-1/50)\<rparr>,
           \<lparr>a_snp = ''s1'', a_weight = Finite (1/2), a_zscore = Finite 2, a_beta = Finite (1/100)\<rparr>],
          [[1, 1/5], [1/5, 1]], Some [''s2'', ''s1''])"
  by (simp add: simple_eval)

lemma example_opt_G1:
  "opt_provide_calculation (OptimizedContext example_gwas example_model example_covariance) ''G1'' =
     Inr (3,
          [\<lparr>a_snp = ''s2'', a_weight = Finite (-3/10), a_zscore = Finite (-1), a_beta = Finite (-1/50)\<rparr>,
           \<lparr>a_snp = ''s1'', a_weight = Finite (1/2), a_zscore = Finite 2, a_beta = Finite (1/100)\<rparr>],
          [[1, 1/5], [1/5, 1]], Some [''s2'', ''s1''])"
  by (simp add: opt_eval)

lemma example_simple_G2:
  "provide_calculation (SimpleContext example_gwas example_model example_covariance) ''G2'' =
     Inr (1, [], [], None)"
  by (simp add: simple_eval)

lemma example_opt_G2:
  "opt_provide_calculation (OptimizedContext example_gwas example_model example_covariance) ''G2'' =
     Inr (1, [], [], None)"
  by (simp add: opt_eval)

lemma example_simple_G3:
  "provide_calculation (SimpleContext example_gwas example_model example_covariance) ''G3'' =
     Inr (2, [\<lparr>a_snp = ''s1'', a_weight = Finite (3/4), a_zscore = Finite 2, a_beta = Finite (1/100)\<rparr>],
          [[1, 1/5], [1/5, 1]], Some [''s1''])"
  by (simp add: simple_eval)

lemma example_opt_G3:
  "opt_provide_calculation (OptimizedContext example_gwas example_model example_covariance) ''G3'' =
     Inr (1, [\<lparr>a_snp = ''s1'', a_weight = Finite (3/4), a_zscore = Finite 2, a_beta = Finite (1/100)\<rparr>],
          [[1, 1/5], [1/5, 1]], Some [''s1''])"
  by (simp add: opt_eval)

lemma example_simple_G4:
  "provide_calculation (SimpleContext example_gwas example_model example_covariance) ''G4'' =
     Inl (KeyError ''s3'')"
  by (simp add: simple_eval)

lemma example_opt_G4:
  "opt_provide_calculation (OptimizedContext example_gwas example_model example_covariance) ''G4'' =
     Inl (KeyError ''s3'')"
  by (simp add: opt_eval)

lemma example_simple_G5:
  "provide_calculation (SimpleContext example_gwas example_model example_covariance) ''G5'' =
     Inr (0, [], [[1, 1/5], [1/5, 1]], Some [])"
  by (simp add: simple_eval)

lemma example_opt_G5:
  "opt_provide_calculation (OptimizedContext example_gwas example_model example_covariance) ''G5'' =
     Inl (KeyError ''G5'')"
  by (simp add: opt_eval)

lemma example_simple_G9:
  "provide_calculation (SimpleContext example_gwas example_model example_covariance) ''G9'' =
     Inr (0, [], [], None)"
  by (simp add: simple_eval)

lemma example_opt_G9:
  "opt_provide_calculation (OptimizedContext example_gwas example_model example_covariance) ''G9'' =
     Inl (KeyError ''G9'')"
  by (simp add: opt_eval)

lemma example_opt_intersection:
  "opt_get_data_intersection (OptimizedContext example_gwas example_model example_covariance)
     = ({''G1'', ''G2'', ''G3'', ''G4''}, {''s1'', ''s2''})"
  by (simp add: opt_get_data_intersection_def data_intersection_2_def intersect_gene_def opt_eval)
     (auto simp: insert_commute)

lemma example_format_output:
  "format_output example_norm_sf example_int_of_string example_results (extra example_model) False =
     [\<lparr>o_gene = ''G1'', o_gene_name = Str ''ONE'', o_zscore = Flt (Finite 0),
       o_effect_size = Flt (Finite 0), o_pvalue = Flt (Finite 1), o_var_g = Flt (Finite 1),
       o_pred_perf_r2 = Flt (Finite (1/2)), o_pred_perf_pval = Flt (Finite (1/100)),
       o_pred_perf_qval = Str ''NA'', o_n_snps_used = IntV 2, o_n_snps_in_cov = IntV 2,
       o_n_snps_in_model = IntV 3\<rparr>,
      \<lparr>o_gene = ''G2'', o_gene_name = Str ''TWO'', o_zscore = Str ''NA'',
       o_effect_size = Str ''NA'', o_pvalue = Str ''NA'', o_var_g = Flt (Finite 1),
       o_pred_perf_r2 = Flt (Finite (1/4)), o_pred_perf_pval = Flt (Finite (1/50)),
       o_pred_perf_qval = Str ''NA'', o_n_snps_used = IntV 1, o_n_snps_in_cov = Str ''NA'',
       o_n_snps_in_model = IntV 1\<rparr>]"
  by (simp add: format_output_def merge_on_def key_group_def output_row_def pvalue_of_def sort_values_pvalue_def
                example_results_def example_model_def example_norm_sf_def example_cdf_def example_int_of_string_def)

section \<open>The claims\<close>

text \<open>
  Claim C1, amended. For every gene that has at least one weight row in the model and whose
  weight rows carry pairwise different SNP ids, \<open>provide_calculation\<close> of the optimized
  context and of the simple context give the same outcome for the same loaded model, GWAS
  and covariance source: the same tuple of count, aligned table, matrix and SNP order, or
  the same key error.
\<close>

theorem provide_calculation_equivalence:
  assumes "g \<in> gene ` set (weights mdl)"
      and "distinct (map rsid (get_weights (SimpleContext gwas mdl covariance) g))"
  shows "opt_provide_calculation (OptimizedContext gwas mdl covariance) g
           = provide_calculation (SimpleContext gwas mdl covariance) g"
proof -
  let ?w = "filter (\<lambda>r. gene r = g) (weights mdl)"
  from assms(1) have ne: "?w \<noteq> []" by (simp add: get_weights_empty_iff)
  from assms(2) have "distinct (map rsid ?w)" by (simp only: get_weights_simple)
  then have "card (set (map rsid ?w)) = length (map rsid ?w)" by (rule distinct_card)
  then have n: "card (rsid ` set ?w) = length ?w" by simp
  show ?thesis
    unfolding opt_provide_calculation_eq [OF refl ne] provide_calculation_eq
    by (simp add: get_weights_simple sc_simps n Let_def del: set_filter
             split: prod.splits option.splits sum.splits)
qed

theorem provide_calculation_equivalence_witness:
  "''G1'' \<in> gene ` set (weights example_model)
   \<and> distinct (map rsid (get_weights (SimpleContext example_gwas example_model example_covariance) ''G1''))
   \<and> opt_provide_calculation (OptimizedContext example_gwas example_model example_covariance) ''G1''
       = provide_calculation (SimpleContext example_gwas example_model example_covariance) ''G1''"
proof -
  have h1: "''G1'' \<in> gene ` set (weights example_model)"
    by (simp add: example_model_def)
  have h2: "distinct (map rsid (get_weights (SimpleContext example_gwas example_model example_covariance) ''G1''))"
    by (simp add: get_weights_def SimpleContext_def example_model_def)
  show ?thesis
    using h1 h2 provide_calculation_equivalence [OF h1 h2] by simp
qed

text \<open>
  Claim C1 as stated fails: for gene \<open>G9\<close>, which has no weight row, the simple context
  returns a tuple and the optimized context raises; for gene \<open>G3\<close>, with two weight rows
  for one SNP, the counts differ (2 rows, 1 SNP).
\<close>

theorem provide_calculation_equivalence_counterexample:
  "provide_calculation (SimpleContext example_gwas example_model example_covariance) ''G9''
     = Inr (0, [], [], None)
   \<and> opt_provide_calculation (OptimizedContext example_gwas example_model example_covariance) ''G9''
     = Inl (KeyError ''G9'')
   \<and> provide_calculation (SimpleContext example_gwas example_model example_covariance) ''G9''
     \<noteq> opt_provide_calculation (OptimizedContext example_gwas example_model example_covariance) ''G9''
   \<and> fst (projr (provide_calculation (SimpleContext example_gwas example_model example_covariance) ''G3'')) = 2
   \<and> fst (projr (opt_provide_calculation (OptimizedContext example_gwas example_model example_covariance) ''G3'')) = 1
   \<and> provide_calculation (SimpleContext example_gwas example_model example_covariance) ''G3''
     \<noteq> opt_provide_calculation (OptimizedContext example_gwas example_model example_covariance) ''G3''"
  by (simp add: example_simple_G9 example_opt_G9 example_simple_G3 example_opt_G3)

text \<open>
  Claim C2, amended. For every gene for which the covariance source returns a non-absent
  served SNP order that lies within the candidate SNPs (the SNP ids of the join of the
  gene's weights with the GWAS), \<open>provide_calculation\<close> of the simple context, and of the
  optimized context when the gene has at least one weight row, returns an aligned table
  whose rows appear in exactly the served order, as many rows as the served order is long,
  each a row of the join; a SNP of the join that is not served is not in the table.
\<close>

theorem served_order_alignment:
  assumes "get_covariance covariance g
             (set (map a_snp (join_table (SimpleContext gwas mdl covariance) g))) = (Some s, m)"
      and "set s \<subseteq> set (map a_snp (join_table (SimpleContext gwas mdl covariance) g))"
  shows "\<exists>rows. provide_calculation (SimpleContext gwas mdl covariance) g
                  = Inr (length (get_weights (SimpleContext gwas mdl covariance) g), rows, m, Some s)
              \<and> (g \<in> gene ` set (weights mdl) \<longrightarrow>
                   opt_provide_calculation (OptimizedContext gwas mdl covariance) g
                     = Inr (card (rsid ` set (get_weights (SimpleContext gwas mdl covariance) g)),
                            rows, m, Some s))
              \<and> map a_snp rows = s \<and> length rows = length s
              \<and> set rows \<subseteq> set (join_table (SimpleContext gwas mdl covariance) g)"
proof -
  let ?S = "SimpleContext gwas mdl covariance"
  let ?rows = "map (\<lambda>x. the (aligned_at (get_weights ?S g) gwas x)) s"
  have sub: "set s \<subseteq> rsid ` set (get_weights ?S g) \<inter> snp ` set gwas"
    using assms(2) unfolding join_table_snps by (simp add: sc_simps)
  have cov: "get_covariance (sc_covariance ?S) g (set (map a_snp (join_table ?S g))) = (Some s, m)"
    using assms(1) by (simp only: sc_simps)
  have 1: "provide_calculation ?S g = Inr (length (get_weights ?S g), ?rows, m, Some s)"
    using simple_served [OF cov assms(2)] by (simp add: sc_simps)
  have 2: "g \<in> gene ` set (weights mdl) \<Longrightarrow>
           opt_provide_calculation (OptimizedContext gwas mdl covariance) g
             = Inr (card (rsid ` set (get_weights ?S g)), ?rows, m, Some s)"
    by (rule opt_served [OF assms])
  have 3: "map a_snp ?rows = s" by (rule aligned_rows_snps [OF sub])
  have 4: "set ?rows \<subseteq> set (join_table ?S g)"
  proof
    fix a assume "a \<in> set ?rows"
    then obtain x where x: "x \<in> set s" "a = the (aligned_at (get_weights ?S g) gwas x)" by auto
    with sub have "aligned_at (get_weights ?S g) gwas x \<noteq> None" by (auto simp: aligned_at_None)
    with x have "aligned_at (get_weights ?S g) (sc_gwas ?S) x = Some a" by (auto simp: sc_simps)
    then show "a \<in> set (join_table ?S g)" by (rule aligned_rows_in_join)
  qed
  show ?thesis using 1 2 3 4 by (intro exI [of _ ?rows]) simp
qed

theorem served_order_alignment_witness:
  "get_covariance example_covariance ''G1''
     (set (map a_snp (join_table (SimpleContext example_gwas example_model example_covariance) ''G1'')))
     = (Some [''s2'', ''s1''], [[1, 1/5], [1/5, 1]])
   \<and> set [''s2'', ''s1'']
       \<subseteq> set (map a_snp (join_table (SimpleContext example_gwas example_model example_covariance) ''G1''))
   \<and> (\<exists>rows. provide_calculation (SimpleContext example_gwas example_model example_covariance) ''G1''
              = Inr (3, rows, [[1, 1/5], [1/5, 1]], Some [''s2'', ''s1''])
            \<and> opt_provide_calculation (OptimizedContext example_gwas example_model example_covariance) ''G1''
              = Inr (3, rows, [[1, 1/5], [1/5, 1]], Some [''s2'', ''s1''])
            \<and> map a_snp rows = [''s2'', ''s1''] \<and> length rows = 2)"
proof -
  let ?S = "SimpleContext example_gwas example_model example_covariance"
  have h1: "get_covariance example_covariance ''G1'' (set (map a_snp (join_table ?S ''G1'')))
              = (Some [''s2'', ''s1''], [[1, 1/5], [1/5, 1]])"
    using example_cov_G1 by (simp add: example_join_G1 insert_commute)
  have h2: "set [''s2'', ''s1''] \<subseteq> set (map a_snp (join_table ?S ''G1''))"
    by (simp add: example_join_G1)
  have g: "''G1'' \<in> gene ` set (weights example_model)"
    by (simp add: example_model_def)
  have n: "length (get_weights ?S ''G1'') = 3" "card (rsid ` set (get_weights ?S ''G1'')) = 3"
    by (simp_all add: get_weights_def SimpleContext_def example_model_def)
  from served_order_alignment [OF h1 h2] g n
  have "\<exists>rows. provide_calculation ?S ''G1'' = Inr (3, rows, [[1, 1/5], [1/5, 1]], Some [''s2'', ''s1''])
            \<and> opt_provide_calculation (OptimizedContext example_gwas example_model example_covariance) ''G1''
              = Inr (3, rows, [[1, 1/5], [1/5, 1]], Some [''s2'', ''s1''])
            \<and> map a_snp rows = [''s2'', ''s1''] \<and> length rows = 2"
    by auto
  with h1 h2 show ?thesis by blast
qed

text \<open>
  Claim C2 as stated fails: for gene \<open>G4\<close> the source serves \<open>s3\<close>, which is not in the
  join, and both contexts raise a key error; for gene \<open>G5\<close>, without weight rows, the source
  serves the empty order and the optimized context raises a key error on the gene.
\<close>

theorem served_order_alignment_counterexample:
  "get_covariance example_covariance ''G4''
     (set (map a_snp (join_table (SimpleContext example_gwas example_model example_covariance) ''G4'')))
     = (Some [''s3''], [[1]])
   \<and> provide_calculation (SimpleContext example_gwas example_model example_covariance) ''G4''
     = Inl (KeyError ''s3'')
   \<and> opt_provide_calculation (OptimizedContext example_gwas example_model example_covariance) ''G4''
     = Inl (KeyError ''s3'')
   \<and> get_covariance example_covariance ''G5''
     (set (map a_snp (join_table (SimpleContext example_gwas example_model example_covariance) ''G5'')))
     = (Some [], [[1, 1/5], [1/5, 1]])
   \<and> opt_provide_calculation (OptimizedContext example_gwas example_model example_covariance) ''G5''
     = Inl (KeyError ''G5'')"
  by (simp add: example_simple_G4 example_opt_G4 example_opt_G5)
     (simp add: join_table_def get_weights_def get_gwas_def merge_on_def key_group_def joined_row_def
                SimpleContext_def get_covariance_def
                example_model_def example_gwas_def example_covariance_def)

text \<open>
  Claim C3, amended. For every gene for which the covariance source returns an absent SNP
  order, \<open>provide_calculation\<close> of the simple context returns, without raising, the number
  of the gene's weight rows (taken before the join with the GWAS), an empty aligned
  table, the matrix that the source returned and the absent SNP order; so does the
  optimized context, with the size of its weight dictionary of the gene (one entry for
  every SNP id of the gene's weight rows), provided the gene has at least one weight row.
\<close>

theorem unknown_gene_calculation:
  assumes "get_covariance covariance g
             (set (map a_snp (join_table (SimpleContext gwas mdl covariance) g))) = (None, m)"
  shows "provide_calculation (SimpleContext gwas mdl covariance) g
           = Inr (length (get_weights (SimpleContext gwas mdl covariance) g), [], m, None)
       \<and> (g \<in> gene ` set (weights mdl) \<longrightarrow>
            (\<exists>w. opt_get_weights_dict (OptimizedContext gwas mdl covariance) g = Inr w
                \<and> set (dict_keys w) = rsid ` set (get_weights (SimpleContext gwas mdl covariance) g)
                \<and> opt_provide_calculation (OptimizedContext gwas mdl covariance) g
                     = Inr (length w, [], m, None)))"
proof -
  let ?S = "SimpleContext gwas mdl covariance"
  let ?w = "filter (\<lambda>r. gene r = g) (weights mdl)"
  let ?c = "rsid ` set ?w \<inter> snp ` set gwas"
  have c: "set (map a_snp (join_table ?S g)) = ?c"
    unfolding join_table_snps by (simp add: get_weights_simple sc_simps)
  from assms have cov: "cov_get covariance g ?c = (None, m)"
    unfolding c get_covariance_def .
  have 1: "provide_calculation ?S g = Inr (length (get_weights ?S g), [], m, None)"
    using cov by (simp add: provide_calculation_eq Let_def get_weights_simple sc_simps)
  have 2: "\<exists>w. opt_get_weights_dict (OptimizedContext gwas mdl covariance) g = Inr w
                \<and> set (dict_keys w) = rsid ` set (get_weights ?S g)
                \<and> opt_provide_calculation (OptimizedContext gwas mdl covariance) g
                     = Inr (length w, [], m, None)"
    if g: "g \<in> gene ` set (weights mdl)"
  proof -
    from g have ne: "?w \<noteq> []" by (simp add: get_weights_empty_iff)
    have "opt_get_weights_dict (OptimizedContext gwas mdl covariance) g = Inr (dict_of rsid weight ?w)"
      using ne by (simp add: opt_get_weights_dict_def dict_get_def opt_weight_data)
    moreover have "set (dict_keys (dict_of rsid weight ?w)) = rsid ` set (get_weights ?S g)"
      by (simp add: keys_dict_of get_weights_simple)
    moreover have "opt_provide_calculation (OptimizedContext gwas mdl covariance) g
                     = Inr (length (dict_of rsid weight ?w), [], m, None)"
      using cov by (simp add: opt_provide_calculation_eq [OF refl ne] Let_def length_dict_of)
    ultimately show ?thesis by blast
  qed
  show ?thesis using 1 2 by blast
qed

theorem unknown_gene_calculation_witness:
  "get_covariance example_covariance ''G2''
     (set (map a_snp (join_table (SimpleContext example_gwas example_model example_covariance) ''G2'')))
     = (None, [])
   \<and> ''G2'' \<in> gene ` set (weights example_model)
   \<and> provide_calculation (SimpleContext example_gwas example_model example_covariance) ''G2''
     = Inr (1, [], [], None)
   \<and> opt_provide_calculation (OptimizedContext example_gwas example_model example_covariance) ''G2''
     = Inr (1, [], [], None)"
proof -
  let ?S = "SimpleContext example_gwas example_model example_covariance"
  have h: "get_covariance example_covariance ''G2'' (set (map a_snp (join_table ?S ''G2''))) = (None, [])"
    by (simp add: get_covariance_def example_covariance_def)
  have g: "''G2'' \<in> gene ` set (weights example_model)"
    by (simp add: example_model_def)
  have w: "get_weights ?S ''G2'' = [\<lparr>rsid = ''s1'', gene = ''G2'', weight = Finite 1\<rparr>]"
    by (simp add: get_weights_def SimpleContext_def example_model_def)
  from unknown_gene_calculation [OF h] g
  obtain d where d: "provide_calculation ?S ''G2'' = Inr (length (get_weights ?S ''G2''), [], [], None)"
    "opt_get_weights_dict (OptimizedContext example_gwas example_model example_covariance) ''G2'' = Inr d"
    "opt_provide_calculation (OptimizedContext example_gwas example_model example_covariance) ''G2'' = Inr (length d, [], [], None)"
    by blast
  have "opt_get_weights_dict (OptimizedContext example_gwas example_model example_covariance) ''G2''
          = Inr [(''s1'', Finite 1)]"
    by (simp add: opt_eval)
  with d(2) have "length d = 1" by auto
  with d h g w show ?thesis by simp
qed

text \<open>
  Claim C3 as stated fails: the covariance source reports gene \<open>G9\<close> as unknown, and the
  optimized context raises a key error, since the gene has no weight row either.
\<close>

theorem unknown_gene_calculation_counterexample:
  "get_covariance example_covariance ''G9''
     (set (map a_snp (join_table (SimpleContext example_gwas example_model example_covariance) ''G9'')))
     = (None, [])
   \<and> opt_provide_calculation (OptimizedContext example_gwas example_model example_covariance) ''G9''
     = Inl (KeyError ''G9'')"
proof
  show "get_covariance example_covariance ''G9''
          (set (map a_snp (join_table (SimpleContext example_gwas example_model example_covariance) ''G9'')))
        = (None, [])"
    by (simp add: get_covariance_def example_covariance_def)
  show "opt_provide_calculation (OptimizedContext example_gwas example_model example_covariance) ''G9''
        = Inl (KeyError ''G9'')"
    by (rule example_opt_G9)
qed



text \<open>
  Claim C5, amended. In \<open>_prepare_gwas\<close> the rows whose z-score is the string \<open>"NA"\<close> go
  before the cast of the z-score column to \<open>float64\<close>. When the cast fails, the failure is
  logged and the rows that remain after that filter are kept as they are, their z-scores
  not cast, and processing goes on; when it succeeds, the column is cast and nothing is
  logged. A table without a beta column that keeps at least one row gets one filled with
  \<open>NaN\<close>. For a table that has a beta column or keeps at least one row, none of these
  situations is fatal: the function returns a table with a beta column.
\<close>

theorem prepare_gwas_correct:
  assumes "(\<exists>rs. gwas = WithBeta rs)
           \<or> filter (\<lambda>(s, z, b, x). z \<noteq> ZStr ''NA'') (frame_rows gwas) \<noteq> []"
  shows "\<exists>rows msgs.
     prepare_gwas fos gwas = Inr (WithBeta rows, msgs) \<and>
     (let kept = filter (\<lambda>(s, z, b, x). z \<noteq> ZStr ''NA'') (frame_rows gwas)
      in if \<forall>(s, z, b, x)\<in>set kept. castable fos z
         then msgs = [] \<and>
              frame_rows (WithBeta rows) =
                map (\<lambda>(s, z, b, x). (s, ZFloat (projr (astype_float64 fos z)), Some (beta_or_nan b), x)) kept
         else msgs = [Info ''Unexpected issue preparing gwas...''] \<and>
              frame_rows (WithBeta rows) =
                map (\<lambda>(s, z, b, x). (s, z, Some (beta_or_nan b), x)) kept)"
proof (cases gwas)
  case (WithoutBeta rs)
  let ?kept = "filter (\<lambda>r. r_zscore r \<noteq> ZStr ''NA'') rs"
  have kept: "filter (\<lambda>(s, z, b, x). z \<noteq> ZStr ''NA'') (frame_rows gwas)
                = map (\<lambda>r. (r_snp r, r_zscore r, None, r_other r)) ?kept"
    by (simp add: WithoutBeta frame_rows_def filter_map comp_def)
  from assms have ne: "?kept \<noteq> []"
    unfolding kept by (simp add: WithoutBeta)
  show ?thesis
  proof (cases "\<forall>r\<in>set ?kept. castable fos (r_zscore r)")
    case True
    from prepare_try_ok [OF True] True ne show ?thesis
      unfolding kept Let_def
      by (simp add: WithoutBeta prepare_gwas_def frame_rows_def with_nan_beta_def beta_or_nan_def comp_def)
  next
    case False
    from prepare_try_fail [OF False] False ne show ?thesis
      unfolding kept Let_def
      by (simp add: WithoutBeta prepare_gwas_def frame_rows_def with_nan_beta_def beta_or_nan_def comp_def)
  qed
next
  case (WithBeta rs)
  let ?kept = "filter (\<lambda>r. r_zscore r \<noteq> ZStr ''NA'') rs"
  have kept: "filter (\<lambda>(s, z, b, x). z \<noteq> ZStr ''NA'') (frame_rows gwas)
                = map (\<lambda>r. (r_snp r, r_zscore r, Some (r_beta r), r_other r)) ?kept"
    by (simp add: WithBeta frame_rows_def filter_map comp_def)
  show ?thesis
  proof (cases "\<forall>r\<in>set ?kept. castable fos (r_zscore r)")
    case True
    from prepare_try_ok [OF True] True show ?thesis
      unfolding kept Let_def
      by (simp add: WithBeta prepare_gwas_def frame_rows_def beta_or_nan_def comp_def)
  next
    case False
    from prepare_try_fail [OF False] False show ?thesis
      unfolding kept Let_def
      by (simp add: WithBeta prepare_gwas_def frame_rows_def beta_or_nan_def comp_def)
  qed
qed

theorem prepare_gwas_correct_witness:
  "prepare_gwas example_float_of_string example_raw =
     Inr (WithBeta
            [\<lparr>r_snp = ''s1'', r_zscore = ZFloat (Finite (3/2)), r_beta = NaN, r_other = ()\<rparr>,
             \<lparr>r_snp = ''s3'', r_zscore = ZFloat (Finite 2), r_beta = NaN, r_other = ()\<rparr>], [])
   \<and> prepare_gwas example_float_of_string example_raw_uncastable =
     Inr (WithBeta [\<lparr>r_snp = ''s1'', r_zscore = ZStr ''abc'', r_beta = Finite (1/100), r_other = ()\<rparr>],
          [Info ''Unexpected issue preparing gwas...''])"
proof -
  have h1: "(\<exists>rs. example_raw = WithBeta rs)
            \<or> filter (\<lambda>(s, z, b, x). z \<noteq> ZStr ''NA'') (frame_rows example_raw) \<noteq> []"
    by (simp add: example_raw_def frame_rows_def)
  have h2: "(\<exists>rs. example_raw_uncastable = WithBeta rs)
            \<or> filter (\<lambda>(s, z, b, x). z \<noteq> ZStr ''NA'') (frame_rows example_raw_uncastable) \<noteq> []"
    by (simp add: example_raw_uncastable_def)
  from prepare_gwas_correct [OF h1, of example_float_of_string]
  obtain rows msgs where 1:
    "prepare_gwas example_float_of_string example_raw = Inr (WithBeta rows, msgs)"
    by blast
  from prepare_gwas_correct [OF h2, of example_float_of_string]
  obtain rows' msgs' where 2:
    "prepare_gwas example_float_of_string example_raw_uncastable = Inr (WithBeta rows', msgs')"
    by blast
  from 1 2 show ?thesis
    by (simp add: example_prepare example_prepare_uncastable)
qed

text \<open>
  Claim C5 as stated fails. When the cast fails, what is kept is not the input as it was:
  the row with the z-score \<open>"NA"\<close> is gone from the table with the z-score \<open>"abc"\<close>. And a
  table without a beta column whose rows all have the z-score \<open>"NA"\<close> is fatal:
  \<open>ValueError\<close>.
\<close>

theorem prepare_gwas_correct_counterexample:
  "prepare_gwas example_float_of_string example_raw_uncastable =
     Inr (WithBeta [\<lparr>r_snp = ''s1'', r_zscore = ZStr ''abc'', r_beta = Finite (1/100), r_other = ()\<rparr>],
          [Info ''Unexpected issue preparing gwas...''])
   \<and> frame_rows (WithBeta [\<lparr>r_snp = ''s1'', r_zscore = ZStr ''abc'', r_beta = Finite (1/100), r_other = ()\<rparr>])
       \<noteq> frame_rows example_raw_uncastable
   \<and> length (frame_rows example_raw_uncastable) = 2
   \<and> prepare_gwas example_float_of_string example_raw_all_na = Inl ValueError"
  by (simp add: example_prepare_uncastable example_prepare_all_na)
     (simp add: frame_rows_def example_raw_uncastable_def)

text \<open>
  Claim C6. What \<open>_sanitized_gwas\<close> returns has the columns \<open>snp\<close>, \<open>zscore\<close>, \<open>beta\<close>
  only, and no row with a z-score that is not finite: it is the input restricted to these
  columns and to the rows with a finite z-score, in the order of the input. One warning is
  logged when a row is dropped, none otherwise. The function returns for every table that
  has a beta column and floats as z-scores.
\<close>

theorem sanitized_gwas_correct:
  "(case sanitized_gwas gwas of
      Inl e \<Rightarrow> \<forall>rows. gwas = WithBeta rows \<longrightarrow> (\<exists>r\<in>set rows. \<exists>s. r_zscore r = ZStr s)
    | Inr (out, msgs) \<Rightarrow>
        (\<forall>r\<in>set out. isfinite (zscore r)) \<and>
        map (\<lambda>r. (snp r, ZFloat (zscore r), Some (beta r))) out
          = map (\<lambda>(s, z, b, x). (s, z, b))
              (filter (\<lambda>(s, z, b, x). finite_zscore z) (frame_rows gwas)) \<and>
        msgs = (if \<forall>(s, z, b, x)\<in>set (frame_rows gwas). finite_zscore z then []
               else [Warning ''Discarding non finite GWAS zscores'']) \<and>
        length msgs \<le> 1)"
proof (cases gwas)
  case (WithoutBeta rs)
  then show ?thesis by (simp add: sanitized_gwas_def)
next
  case (WithBeta rs)
  show ?thesis
  proof (cases "\<forall>r\<in>set rs. \<exists>z. r_zscore r = ZFloat z")
    case False
    from select_all_fail [OF False] obtain e where e: "comprehend select_columns rs = Inl e" by blast
    from False obtain r where "r \<in> set rs" "\<forall>z. r_zscore r \<noteq> ZFloat z" by blast
    then have "\<exists>r\<in>set rs. \<exists>s. r_zscore r = ZStr s"
      by (metis zcell.exhaust)
    then show ?thesis by (simp add: WithBeta sanitized_gwas_def e)
  next
    case True
    let ?g = "map (\<lambda>r. projr (select_columns r)) rs"
    have g: "comprehend select_columns rs = Inr ?g" by (rule select_all_ok [OF True])
    have fin: "(\<exists>r\<in>set ?g. \<not> isfinite (zscore r)) \<longleftrightarrow>
               \<not> (\<forall>(s, z, b, x)\<in>set (frame_rows gwas). finite_zscore z)"
    proof -
      have pt: "isfinite (zscore (projr (select_columns r))) \<longleftrightarrow> finite_zscore (r_zscore r)"
        if "r \<in> set rs" for r
      proof -
        from True that obtain z where z: "r_zscore r = ZFloat z" by blast
        show ?thesis by (simp add: z select_columns_float [OF z] finite_zscore_def)
      qed
      have "(\<exists>r\<in>set ?g. \<not> isfinite (zscore r)) \<longleftrightarrow> (\<exists>r\<in>set rs. \<not> finite_zscore (r_zscore r))"
        using pt by auto
      also have "\<dots> \<longleftrightarrow> \<not> (\<forall>(s, z, b, x)\<in>set (frame_rows gwas). finite_zscore z)"
        by (auto simp: WithBeta frame_rows_def)
      finally show ?thesis .
    qed
    have rows: "map (\<lambda>r. (snp r, ZFloat (zscore r), Some (beta r))) (filter (\<lambda>r. isfinite (zscore r)) ?g)
                  = map (\<lambda>(s, z, b, x). (s, z, b))
                      (filter (\<lambda>(s, z, b, x). finite_zscore z) (frame_rows gwas))"
      using selected_rows [OF True] by (simp add: WithBeta frame_rows_def)
    show ?thesis
    proof (cases "\<exists>r\<in>set ?g. \<not> isfinite (zscore r)")
      case dropped: True
      have "sanitized_gwas gwas =
              Inr (filter (\<lambda>r. isfinite (zscore r)) ?g, [Warning ''Discarding non finite GWAS zscores''])"
        using dropped by (simp add: WithBeta sanitized_gwas_def g)
      moreover from dropped fin have "\<not> (\<forall>(s, z, b, x)\<in>set (frame_rows gwas). finite_zscore z)" by simp
      ultimately show ?thesis using rows by simp
    next
      case kept: False
      have out: "sanitized_gwas gwas = Inr (?g, [])"
        using kept by (simp add: WithBeta sanitized_gwas_def g)
      from kept have all: "filter (\<lambda>r. isfinite (zscore r)) ?g = ?g" by (simp add: filter_id_conv)
      from kept fin have "\<forall>(s, z, b, x)\<in>set (frame_rows gwas). finite_zscore z" by simp
      with out rows all kept show ?thesis by simp
    qed
  qed
qed

theorem sanitized_gwas_correct_witness:
  "sanitized_gwas example_raw_floats =
     Inr ([\<lparr>snp = ''s1'', zscore = Finite 2, beta = Finite (1/100)\<rparr>],
          [Warning ''Discarding non finite GWAS zscores''])
   \<and> isfinite (zscore \<lparr>snp = ''s1'', zscore = Finite 2, beta = Finite (1/100)\<rparr>)"
proof -
  from sanitized_gwas_correct [of example_raw_floats]
  have "\<forall>r\<in>set [\<lparr>snp = ''s1'', zscore = Finite 2, beta = Finite (1/100)\<rparr>]. isfinite (zscore r)"
    unfolding example_sanitized by simp
  then show ?thesis by (simp add: example_sanitized)
qed

text \<open>
  Claim C7. \<open>get_data_intersection\<close> returns, in both contexts, exactly the genes that have
  a weight row whose SNP id is a key of the GWAS data, and exactly the SNP ids of such rows.
  So the SNPs returned are model SNPs and GWAS SNPs, and the two contexts return the same
  sets.
\<close>

theorem data_intersection_correct:
  "set (fst (get_data_intersection (SimpleContext gwas mdl covariance)))
     = {gene w |w. w \<in> set (weights mdl) \<and> rsid w \<in> snp ` set gwas}
   \<and> set (snd (get_data_intersection (SimpleContext gwas mdl covariance)))
     = {rsid w |w. w \<in> set (weights mdl) \<and> rsid w \<in> snp ` set gwas}
   \<and> fst (opt_get_data_intersection (OptimizedContext gwas mdl covariance))
     = set (fst (get_data_intersection (SimpleContext gwas mdl covariance)))
   \<and> snd (opt_get_data_intersection (OptimizedContext gwas mdl covariance))
     = set (snd (get_data_intersection (SimpleContext gwas mdl covariance)))
   \<and> set (snd (get_data_intersection (SimpleContext gwas mdl covariance)))
     \<subseteq> get_model_snps (SimpleContext gwas mdl covariance) \<inter> snp ` set gwas
   \<and> snd (opt_get_data_intersection (OptimizedContext gwas mdl covariance))
     \<subseteq> opt_get_model_snps (OptimizedContext gwas mdl covariance)
       \<inter> set (dict_keys (oc_gwas_data (OptimizedContext gwas mdl covariance)))"
proof -
  have ms: "get_model_snps (SimpleContext gwas mdl covariance) = rsid ` set (weights mdl)"
    by (simp add: get_model_snps_def sc_simps)
  have oms: "opt_get_model_snps (OptimizedContext gwas mdl covariance) = rsid ` set (weights mdl)"
    by (simp add: opt_get_model_snps_def OptimizedContext_def prepare_weight_data_snps)
  have ok: "set (dict_keys (oc_gwas_data (OptimizedContext gwas mdl covariance))) = snp ` set gwas"
    by (simp add: OptimizedContext_def gwas_data_keys)
  have sub: "{rsid w |w. w \<in> set (weights mdl) \<and> rsid w \<in> snp ` set gwas}
               \<subseteq> rsid ` set (weights mdl) \<inter> snp ` set gwas"
    by blast
  show ?thesis
    unfolding data_intersection_sets data_intersection_2_sets ms oms ok fst_conv snd_conv
    using sub by simp
qed

theorem data_intersection_correct_witness:
  "set (fst (get_data_intersection (SimpleContext example_gwas example_model example_covariance)))
     = {''G1'', ''G2'', ''G3'', ''G4''}
   \<and> set (snd (get_data_intersection (SimpleContext example_gwas example_model example_covariance)))
     = {''s1'', ''s2''}
   \<and> {''s1'', ''s2''} \<subseteq> get_model_snps (SimpleContext example_gwas example_model example_covariance)
       \<inter> snp ` set example_gwas"
proof -
  note t = data_intersection_correct [of example_gwas example_model example_covariance,
                                      unfolded example_opt_intersection fst_conv snd_conv]
  from t have g: "set (fst (get_data_intersection (SimpleContext example_gwas example_model example_covariance)))
                    = {''G1'', ''G2'', ''G3'', ''G4''}"
    by simp
  from t have s: "set (snd (get_data_intersection (SimpleContext example_gwas example_model example_covariance)))
                    = {''s1'', ''s2''}"
    by simp
  from t have "set (snd (get_data_intersection (SimpleContext example_gwas example_model example_covariance)))
                 \<subseteq> get_model_snps (SimpleContext example_gwas example_model example_covariance)
                     \<inter> snp ` set example_gwas"
    by blast
  with g s show ?thesis by simp
qed

text \<open>
  Claim C8. The table that \<open>format_output\<close> returns is sorted ascending by the p-value
  column as it is after the missing values became \<open>"NA"\<close>, in the order of Python 2 on
  mixed cells: numbers by value, and every number before the string \<open>"NA"\<close>, so the rows
  with \<open>"NA"\<close> come last. The merge with the model metadata is an inner join on the gene:
  every row of the output comes from a result row and a metadata row of the same gene, and
  a result row contributes as many rows as the metadata has for its gene, none when it
  has none.
\<close>

theorem format_output_sorted:
  "sorted_wrt (\<lambda>a b. py_le (o_pvalue a) (o_pvalue b)) (format_output sf ios results info strip)
   \<and> (\<forall>i j. i < j \<and> j < length (format_output sf ios results info strip)
            \<and> o_pvalue ((format_output sf ios results info strip) ! i) = Str ''NA''
          \<longrightarrow> o_pvalue ((format_output sf ios results info strip) ! j) = Str ''NA'')
   \<and> (\<forall>q\<in>set (format_output sf ios results info strip).
          o_pvalue q = Str ''NA'' \<or> (\<exists>f. o_pvalue q = Flt f \<and> f \<noteq> NaN))
   \<and> (\<forall>q\<in>set (format_output sf ios results info strip).
          \<exists>r\<in>set results. \<exists>m\<in>set info.
            mi_gene m = res_gene r \<and> q = output_row sf ios strip (r, m))
   \<and> length (format_output sf ios results info strip)
       = (\<Sum>r\<leftarrow>results. length (filter (\<lambda>m. mi_gene m = res_gene r) info))"
proof -
  let ?rows = "map (output_row sf ios strip) (merge_on res_gene mi_gene results info)"
  let ?out = "format_output sf ios results info strip"
  have out: "?out = sort_values_pvalue ?rows"
    by (simp add: format_output_def)
  have pv: "o_pvalue q = Str ''NA'' \<or> (\<exists>f. o_pvalue q = Flt f \<and> f \<noteq> NaN)" if "q \<in> set ?rows" for q
  proof -
    from that obtain p where "q = output_row sf ios strip p" by auto
    then have "o_pvalue q = fillna (Flt (pvalue_of sf (res_zscore (fst p))))"
      by (simp add: output_row_pvalue)
    then show ?thesis by (cases "pvalue_of sf (res_zscore (fst p))") simp_all
  qed
  have nn: "\<forall>q\<in>set ?rows. number_of (o_pvalue q) \<noteq> Some NaN"
    using pv by fastforce
  have 1: "sorted_wrt (\<lambda>a b. py_le (o_pvalue a) (o_pvalue b)) ?out"
    unfolding out by (rule sorted_sort_values [OF nn])
  have 3: "\<forall>q\<in>set ?out. o_pvalue q = Str ''NA'' \<or> (\<exists>f. o_pvalue q = Flt f \<and> f \<noteq> NaN)"
    unfolding out set_sort_values using pv by blast
  have 2: "\<forall>i j. i < j \<and> j < length ?out \<and> o_pvalue (?out ! i) = Str ''NA''
             \<longrightarrow> o_pvalue (?out ! j) = Str ''NA''"
  proof (intro allI impI)
    fix i j assume a: "i < j \<and> j < length ?out \<and> o_pvalue (?out ! i) = Str ''NA''"
    from a have ij: "i < j" "j < length ?out" by simp_all
    from 1 have "\<forall>i j. i < j \<longrightarrow> j < length ?out \<longrightarrow> py_le (o_pvalue (?out ! i)) (o_pvalue (?out ! j))"
      by (simp only: sorted_wrt_iff_nth_less)
    with ij have "py_le (o_pvalue (?out ! i)) (o_pvalue (?out ! j))" by blast
    with a obtain t where t: "o_pvalue (?out ! j) = Str t"
      using py_le_Str_left [of "''NA''" "o_pvalue (?out ! j)"] by auto
    from a have "?out ! j \<in> set ?out" by simp
    with 3 t show "o_pvalue (?out ! j) = Str ''NA''" by auto
  qed
  have 4: "\<forall>q\<in>set ?out. \<exists>r\<in>set results. \<exists>m\<in>set info.
            mi_gene m = res_gene r \<and> q = output_row sf ios strip (r, m)"
    unfolding out set_sort_values by (auto simp: set_merge_on)
  have 5: "length ?out = (\<Sum>r\<leftarrow>results. length (filter (\<lambda>m. mi_gene m = res_gene r) info))"
    unfolding out length_sort_values by (simp add: length_merge_on)
  from 1 2 3 4 5 show ?thesis by blast
qed

theorem format_output_sorted_witness:
  "map o_gene (format_output example_norm_sf example_int_of_string example_results (extra example_model) False) = [''G1'', ''G2'']
   \<and> map o_pvalue (format_output example_norm_sf example_int_of_string example_results (extra example_model) False) = [Flt (Finite 1), Str ''NA'']
   \<and> sorted_wrt (\<lambda>a b. py_le (o_pvalue a) (o_pvalue b))
        (format_output example_norm_sf example_int_of_string example_results (extra example_model) False)"
proof -
  from format_output_sorted [of example_norm_sf example_int_of_string example_results
                                "extra example_model" False]
  have "sorted_wrt (\<lambda>a b. py_le (o_pvalue a) (o_pvalue b))
          (format_output example_norm_sf example_int_of_string example_results (extra example_model) False)"
    by blast
  then show ?thesis by (simp add: example_format_output)
qed

text \<open>
  Claim C9. For a gene without weight rows in the loaded model, \<open>get_weights\<close> and
  \<open>provide_calculation\<close> of the optimized context fail with a key error on the gene (the
  gene is looked up in the grouped weight dictionary), and \<open>get_weights\<close> of the simple
  context returns the empty table.
\<close>

theorem optimized_absent_gene_key_error:
  assumes "g \<notin> gene ` set (weights mdl)"
  shows "opt_get_weights (OptimizedContext gwas mdl covariance) g = Inl (KeyError g)
       \<and> opt_provide_calculation (OptimizedContext gwas mdl covariance) g = Inl (KeyError g)
       \<and> get_weights (SimpleContext gwas mdl covariance) g = []"
proof -
  from assms have e: "filter (\<lambda>r. gene r = g) (weights mdl) = []"
    by (simp add: get_weights_empty_iff)
  have "opt_get_weights (OptimizedContext gwas mdl covariance) g = Inl (KeyError g)"
    by (simp add: opt_get_weights_def dict_get_def opt_weight_data e)
  moreover have "opt_provide_calculation (OptimizedContext gwas mdl covariance) g = Inl (KeyError g)"
    by (rule opt_provide_calculation_absent [OF e])
  moreover have "get_weights (SimpleContext gwas mdl covariance) g = []"
    by (simp add: get_weights_simple e)
  ultimately show ?thesis by simp
qed

theorem optimized_absent_gene_key_error_witness:
  "''G9'' \<notin> gene ` set (weights example_model)
   \<and> opt_get_weights (OptimizedContext example_gwas example_model example_covariance) ''G9''
       = Inl (KeyError ''G9'')
   \<and> opt_provide_calculation (OptimizedContext example_gwas example_model example_covariance) ''G9''
       = Inl (KeyError ''G9'')
   \<and> get_weights (SimpleContext example_gwas example_model example_covariance) ''G9'' = []"
proof -
  have h: "''G9'' \<notin> gene ` set (weights example_model)"
    by (simp add: example_model_def)
  show ?thesis
    using h optimized_absent_gene_key_error [OF h, of example_gwas example_covariance]
    by simp
qed

text \<open>
  Claim C10. \<open>SimpleContext.provide_calculation\<close> builds a dictionary keyed by the SNP ids
  of the joined table and indexes it once for every SNP of the served order. When the
  served order is within the candidate SNPs handed to \<open>get_covariance\<close>, every lookup
  succeeds and the call returns; a served SNP outside the candidates makes the call fail
  with a key error on such a SNP.
\<close>

theorem simple_alignment_lookups:
  assumes "get_covariance (sc_covariance self) g (set (map a_snp (join_table self g))) = (Some s, m)"
  shows "(set s \<subseteq> set (map a_snp (join_table self g)) \<longrightarrow>
            (\<forall>x\<in>set s. \<exists>a. dict_get (dict_of a_snp (\<lambda>x. x) (join_table self g)) x = Inr a) \<and>
            (\<exists>rows. provide_calculation self g = Inr (length (get_weights self g), rows, m, Some s)))
       \<and> (\<not> set s \<subseteq> set (map a_snp (join_table self g)) \<longrightarrow>
            (\<exists>x\<in>set s. x \<notin> set (map a_snp (join_table self g)) \<and>
                        provide_calculation self g = Inl (KeyError x)))"
proof -
  let ?w = "get_weights self g"
  let ?c = "rsid ` set ?w \<inter> snp ` set (sc_gwas self)"
  have c: "set (map a_snp (join_table self g)) = ?c" by (rule join_table_snps)
  from assms have cov: "cov_get (sc_covariance self) g ?c = (Some s, m)"
    unfolding c get_covariance_def .
  have pc: "provide_calculation self g =
              (case comprehend (aligned_get ?w (sc_gwas self)) s of
                 Inl e \<Rightarrow> Inl e
               | Inr rows \<Rightarrow> Inr (length ?w, rows, m, Some s))"
    by (simp add: provide_calculation_eq Let_def cov)
  have ok: "set s \<subseteq> ?c \<Longrightarrow>
            (\<forall>x\<in>set s. \<exists>a. dict_get (dict_of a_snp (\<lambda>x. x) (join_table self g)) x = Inr a) \<and>
            (\<exists>rows. provide_calculation self g = Inr (length ?w, rows, m, Some s))"
  proof
    assume sub: "set s \<subseteq> ?c"
    show "\<forall>x\<in>set s. \<exists>a. dict_get (dict_of a_snp (\<lambda>x. x) (join_table self g)) x = Inr a"
    proof
      fix x assume "x \<in> set s"
      with sub have "aligned_at ?w (sc_gwas self) x \<noteq> None" by (auto simp: aligned_at_None)
      then show "\<exists>a. dict_get (dict_of a_snp (\<lambda>x. x) (join_table self g)) x = Inr a"
        by (auto simp: join_table_get aligned_get_def)
    qed
    show "\<exists>rows. provide_calculation self g = Inr (length ?w, rows, m, Some s)"
      by (simp add: pc comprehend_aligned_ok [OF sub])
  qed
  have bad: "\<not> set s \<subseteq> ?c \<Longrightarrow>
             \<exists>x\<in>set s. x \<notin> ?c \<and> provide_calculation self g = Inl (KeyError x)"
  proof -
    assume "\<not> set s \<subseteq> ?c"
    from comprehend_aligned_fail [OF this]
    obtain x where "x \<in> set s" "x \<notin> ?c"
      "comprehend (aligned_get ?w (sc_gwas self)) s = Inl (KeyError x)" by blast
    then show ?thesis by (auto simp: pc)
  qed
  show ?thesis unfolding c using ok bad by blast
qed

theorem simple_alignment_lookups_witness:
  "(\<exists>rows. provide_calculation (SimpleContext example_gwas example_model example_covariance) ''G1''
            = Inr (3, rows, [[1, 1/5], [1/5, 1]], Some [''s2'', ''s1'']))
   \<and> provide_calculation (SimpleContext example_gwas example_model example_covariance) ''G4''
       = Inl (KeyError ''s3'')"
proof -
  let ?self = "SimpleContext example_gwas example_model example_covariance"
  have w1: "length (get_weights ?self ''G1'') = 3"
    by (simp add: get_weights_def SimpleContext_def example_model_def)
  have h1: "get_covariance (sc_covariance ?self) ''G1'' (set (map a_snp (join_table ?self ''G1'')))
              = (Some [''s2'', ''s1''], [[1, 1/5], [1/5, 1]])"
    using example_cov_G1 by (simp add: example_join_G1 sc_simps insert_commute)
  have h4: "get_covariance (sc_covariance ?self) ''G4'' (set (map a_snp (join_table ?self ''G4'')))
              = (Some [''s3''], [[1]])"
    using example_cov_G4 by (simp add: example_join_G4 sc_simps)
  from simple_alignment_lookups [OF h1] simple_alignment_lookups [OF h4]
  show ?thesis
    by (simp add: example_join_G1 example_join_G4 w1)
qed

end
